theory Spec2Isabelle
  imports Complex_Main "HOL-Library.Product_Lexorder"
begin

section \<open>Strings and column names\<close>

text \<open>
  A Python string is modelled as a list of code points below 256 (Latin-1), one
  \<^typ>\<open>char\<close> per code point: the accented letters of the column tokens
  (o acute 0xF3, e circumflex 0xEA, i acute 0xED) are single characters, as in Python.
\<close>

definition tok_codigo_acc :: string where
  "tok_codigo_acc = CHR ''c'' # CHR 0xF3 # ''digo''"
definition tok_mes_acc :: string where
  "tok_mes_acc = [CHR ''m'', CHR 0xEA, CHR ''s'']"
definition tok_periodo_acc :: string where
  "tok_periodo_acc = ''per'' @ CHR 0xED # ''odo''"

text \<open>\<open>str.isspace\<close> on the code points below 256; it is also what \<open>\s\<close> matches
  in a \<open>str\<close> pattern and what \<open>str.strip()\<close> removes.\<close>

definition isspace :: "char \<Rightarrow> bool" where
  "isspace c = ((of_char c :: int) \<in> set [9, 10, 11, 12, 13, 28, 29, 30, 31, 32, 133, 160])"

text \<open>\<open>str.lower\<close> on the code points below 256: \<open>A\<close>..\<open>Z\<close> and the accented
  capitals 192..222 (but not the multiplication sign 215) move up by 32.\<close>

definition lower_char :: "char \<Rightarrow> char" where
  "lower_char c =
     (let n = (of_char c :: int)
      in if (65 \<le> n \<and> n \<le> 90) \<or> (192 \<le> n \<and> n \<le> 222 \<and> n \<noteq> 215)
         then char_of (n + 32) else c)"

text \<open>\<open>re.sub(r"\s+", " ", s)\<close>: every maximal run of whitespace becomes one space.
  The flag says that the previous character was whitespace.\<close>

fun sub_spaces :: "bool \<Rightarrow> string \<Rightarrow> string" where
  "sub_spaces prev [] = []"
| "sub_spaces prev (c # cs) =
     (if isspace c then (if prev then sub_spaces True cs else CHR '' '' # sub_spaces True cs)
      else c # sub_spaces False cs)"

definition strip :: "string \<Rightarrow> string" where
  "strip s = rev (dropWhile isspace (rev (dropWhile isspace s)))"

text \<open>\<open>_norm(s) = re.sub(r"\s+", " ", str(s)).strip().lower()\<close>\<close>

definition norm_col :: "string \<Rightarrow> string" where
  "norm_col s = map lower_char (strip (sub_spaces False s))"

text \<open>Python's \<open>t in s\<close> on strings: \<open>t\<close> occurs in \<open>s\<close> as a contiguous substring.\<close>

fun in_str :: "string \<Rightarrow> string \<Rightarrow> bool" where
  "in_str t [] = (t = [])"
| "in_str t (c # cs) = (take (length t) (c # cs) = t \<or> in_str t cs)"

text \<open>\<open>str.replace(old, new)\<close>: non-overlapping occurrences of \<open>old\<close>, left to right.
  After a match at the head, the scan resumes behind the match: \<open>drop (length old - 1) cs\<close>
  is \<open>drop (length old) (c # cs)\<close> for a non-empty \<open>old\<close>. An empty \<open>old\<close> matches
  before every character and at the end.\<close>

fun replace_ne :: "string \<Rightarrow> string \<Rightarrow> string \<Rightarrow> string" where
  "replace_ne old new [] = []"
| "replace_ne old new (c # cs) =
     (if take (length old) (c # cs) = old
      then new @ replace_ne old new (drop (length old - 1) cs)
      else c # replace_ne old new cs)"

definition str_replace :: "string \<Rightarrow> string \<Rightarrow> string \<Rightarrow> string" where
  "str_replace old new s =
     (if old = [] then new @ concat (map (\<lambda>c. c # new) s) else replace_ne old new s)"

definition is_digit :: "char \<Rightarrow> bool" where
  "is_digit c = (48 \<le> (of_char c :: int) \<and> (of_char c :: int) \<le> 57)"

text \<open>\<open>re.match(r"^D\d+C$", s)\<close> and \<open>re.match(r"^D\d+N$", s)\<close>, with the last letter
  as parameter: \<open>D\<close>, one or more digits, the letter, and then the end of the string or
  one final newline (which \<open>$\<close> accepts).\<close>

definition match_dim :: "char \<Rightarrow> string \<Rightarrow> bool" where
  "match_dim e s =
     (case s of
        [] \<Rightarrow> False
      | d # t \<Rightarrow>
          d = CHR ''D'' \<and>
          (let ds = takeWhile is_digit t; rest = dropWhile is_digit t
           in ds \<noteq> [] \<and> (rest = [e] \<or> rest = [e, CHR 0x0A])))"

section \<open>Numbers\<close>

text \<open>
  A float64 value that is not NaN: a finite value or an infinity. Finite values are exact
  rationals: rounding, overflow and the sign of zero are not modelled. NaN, pandas' missing
  value, is \<open>None\<close> of \<^typ>\<open>'a option\<close>.
\<close>

datatype fl = NInf | Fin rat | PInf

fun fl_le :: "fl \<Rightarrow> fl \<Rightarrow> bool" where
  "fl_le NInf _ = True"
| "fl_le (Fin a) NInf = False"
| "fl_le (Fin a) (Fin b) = (a \<le> b)"
| "fl_le (Fin a) PInf = True"
| "fl_le PInf PInf = True"
| "fl_le PInf _ = False"

instantiation fl :: linorder
begin

definition less_eq_fl :: "fl \<Rightarrow> fl \<Rightarrow> bool" where
  "less_eq_fl x y = fl_le x y"

definition less_fl :: "fl \<Rightarrow> fl \<Rightarrow> bool" where
  "less_fl x y = (fl_le x y \<and> \<not> fl_le y x)"

instance
proof
  fix x y z :: fl
  show "(x < y) = (x \<le> y \<and> \<not> y \<le> x)"
    by (simp add: less_fl_def less_eq_fl_def)
  show "x \<le> x"
    by (cases x) (simp_all add: less_eq_fl_def)
  show "x \<le> y \<Longrightarrow> y \<le> z \<Longrightarrow> x \<le> z"
    by (cases x; cases y; cases z) (simp_all add: less_eq_fl_def)
  show "x \<le> y \<Longrightarrow> y \<le> x \<Longrightarrow> x = y"
    by (cases x; cases y) (simp_all add: less_eq_fl_def)
  show "x \<le> y \<or> y \<le> x"
    by (cases x; cases y) (auto simp add: less_eq_fl_def)
qed

end

text \<open>Negation, used for the descending sort key.\<close>

fun fneg :: "fl \<Rightarrow> fl" where
  "fneg NInf = PInf"
| "fneg (Fin a) = Fin (- a)"
| "fneg PInf = NInf"

text \<open>IEEE division of two non-NaN values; \<open>None\<close> is NaN. A finite non-zero value
  over zero is an infinity, \<open>0 / 0\<close> and \<open>inf / inf\<close> are NaN.\<close>

fun fdiv :: "fl \<Rightarrow> fl \<Rightarrow> fl option" where
  "fdiv (Fin a) (Fin b) =
     (if b = 0 then (if a = 0 then None else if 0 < a then Some PInf else Some NInf)
      else Some (Fin (a / b)))"
| "fdiv (Fin a) PInf = Some (Fin 0)"
| "fdiv (Fin a) NInf = Some (Fin 0)"
| "fdiv PInf (Fin b) = Some (if b < 0 then NInf else PInf)"
| "fdiv NInf (Fin b) = Some (if b < 0 then PInf else NInf)"
| "fdiv PInf PInf = None"
| "fdiv PInf NInf = None"
| "fdiv NInf PInf = None"
| "fdiv NInf NInf = None"

text \<open>
  \<open>pandas.to_numeric(..., errors="coerce")\<close> on one string is a parameter of the model,
  \<open>num :: string \<Rightarrow> fl option\<close>: the float the text parses to, or NaN. The general
  theorems hold for every such function. The examples use \<open>decimal_literal\<close>, the parser
  of plain decimal literals: an optional sign, digits, and an optional point followed by
  digits, with at least one digit in all.
\<close>

type_synonym to_numeric = "string \<Rightarrow> fl option"

definition digits_val :: "string \<Rightarrow> int" where
  "digits_val ds = foldl (\<lambda>n c. 10 * n + ((of_char c :: int) - 48)) 0 ds"

definition unsigned_literal :: "string \<Rightarrow> rat option" where
  "unsigned_literal s =
     (let ip = takeWhile is_digit s; rest = dropWhile is_digit s
      in case rest of
           [] \<Rightarrow> (if ip = [] then None else Some (of_int (digits_val ip)))
         | c # fp \<Rightarrow>
             (if c = CHR ''.'' \<and> list_all is_digit fp \<and> (ip \<noteq> [] \<or> fp \<noteq> [])
              then Some (of_int (digits_val ip) + of_int (digits_val fp) / 10 ^ length fp)
              else None))"

definition decimal_literal :: to_numeric where
  "decimal_literal s =
     (case s of
        [] \<Rightarrow> None
      | c # t \<Rightarrow>
          (if c = CHR ''-'' then map_option (\<lambda>q. Fin (- q)) (unsigned_literal t)
           else if c = CHR ''+'' then map_option Fin (unsigned_literal t)
           else map_option Fin (unsigned_literal s)))"

section \<open>Tables\<close>

text \<open>
  A raw table is what \<open>sidra_table\<close> hands over: named columns and rows of text cells (the
  service delivers every cell as a string), under the default index \<open>0, 1, 2, ...\<close>.
  A row maps a column name to its cell. Column names are distinct, as in every frame built
  from JSON records.
\<close>

record raw_table =
  columns :: "string list"
  rows :: "(string \<Rightarrow> string) list"

text \<open>A pandas \<open>Series\<close>: values under index labels.\<close>

type_synonym 'a series = "(nat \<times> 'a) list"

text \<open>
  The working frame \<open>df\<close> of \<open>normalize_sidra_table\<close>: the text columns of the raw table, each
  row under its index label, and the float column \<open>__value__\<close> that line 115 adds.
\<close>

record work_frame =
  wcolumns :: "string list"
  wrows :: "(string \<Rightarrow> string) series"
  wvalue :: "fl option series"

text \<open>
  A cell of a frame the program builds: text (dtype object), an integer (dtype Int64),
  a float that is not NaN, or the missing value (NaN, \<open>pd.NA\<close>).
\<close>

datatype cell = StrC string | IntC int | FltC fl | NA

record frame =
  fcolumns :: "string list"
  frows :: "(string \<Rightarrow> cell) series"

datatype error = ValueError | TypeError | OverflowError | KeyError

text \<open>\<open>df_raw.copy()\<close>, with the default index written out.\<close>

definition copy_raw :: "raw_table \<Rightarrow> work_frame" where
  "copy_raw t = \<lparr>wcolumns = columns t, wrows = enumerate 0 (rows t), wvalue = []\<rparr>"

text \<open>\<open>df[c]\<close> for a text column.\<close>

definition getitem_w :: "work_frame \<Rightarrow> string \<Rightarrow> string series" where
  "getitem_w df c = map (\<lambda>(l, r). (l, r c)) (wrows df)"

text \<open>\<open>pd.to_numeric(s, errors="coerce")\<close> on a text column.\<close>

definition to_numeric_s :: "to_numeric \<Rightarrow> string series \<Rightarrow> fl option series" where
  "to_numeric_s num s = map (\<lambda>(l, x). (l, num x)) s"

text \<open>\<open>_coerce_numeric\<close> (lines 34-39); \<open>astype(str)\<close> leaves a text cell as it is.\<close>

definition coerce_numeric :: "to_numeric \<Rightarrow> string series \<Rightarrow> fl option series" where
  "coerce_numeric num series =
     to_numeric_s num
       (map (\<lambda>(l, x). (l, str_replace '','' ''.'' (str_replace ''.'' '''' x))) series)"

text \<open>\<open>df.loc[v.notna()]\<close>: the rows whose label carries a non-missing value in \<open>v\<close>.\<close>

definition notna_at :: "'a option series \<Rightarrow> nat \<Rightarrow> bool" where
  "notna_at v l = (case map_of v l of Some (Some x) \<Rightarrow> True | _ \<Rightarrow> False)"

text \<open>\<open>_drop_header_like_rows\<close> (lines 42-50).\<close>

definition drop_header_like_rows :: "to_numeric \<Rightarrow> work_frame \<Rightarrow> work_frame" where
  "drop_header_like_rows num df =
     (if ''V'' \<in> set (wcolumns df)
      then (let v = coerce_numeric num (getitem_w df ''V'')
            in df\<lparr>wrows := filter (\<lambda>(l, r). notna_at v l) (wrows df)\<rparr>)
      else df)"

text \<open>\<open>_find_col\<close> (lines 16-31).\<close>

definition find_col :: "work_frame \<Rightarrow> string list \<Rightarrow> string list option \<Rightarrow> string option" where
  "find_col df must_contain any_of =
     find (\<lambda>c. let cn = norm_col c
                in list_all (\<lambda>t. in_str t cn) must_contain \<and>
                   (case any_of of None \<Rightarrow> True | Some ts \<Rightarrow> list_ex (\<lambda>t. in_str t cn) ts))
          (wcolumns df)"

text \<open>The loop of lines 61-65 and 134-138: the first column whose normalised name has the
  token and neither spelling of the code token.\<close>

definition find_name_col :: "work_frame \<Rightarrow> string \<Rightarrow> string option" where
  "find_name_col df tok =
     find (\<lambda>c. let cn = norm_col c
                in in_str tok cn \<and> (\<not> in_str tok_codigo_acc cn \<and> \<not> in_str ''codigo'' cn))
          (wcolumns df)"

text \<open>\<open>_extract_muni_cols\<close> (lines 53-66).\<close>

definition extract_muni_cols :: "work_frame \<Rightarrow> string option \<times> string option" where
  "extract_muni_cols df =
     (find_col df [''munic''] (Some [tok_codigo_acc, ''codigo'']), find_name_col df ''munic'')"

text \<open>Python's truth value of an \<open>Optional[str]\<close>: \<open>None\<close> and the empty string are false.
  \<open>truthy x\<close> is \<open>x\<close> when it is true and \<open>None\<close> otherwise; \<open>py_or x y\<close> is \<open>x or y\<close>.\<close>

definition truthy :: "string option \<Rightarrow> string option" where
  "truthy x = (case x of Some c \<Rightarrow> (if c = [] then None else Some c) | None \<Rightarrow> None)"

definition py_or :: "string option \<Rightarrow> string option \<Rightarrow> string option" where
  "py_or x y = (case truthy x of Some c \<Rightarrow> x | None \<Rightarrow> y)"

text \<open>\<open>_extract_time_col\<close> (lines 69-84).\<close>

definition extract_time_col :: "work_frame \<Rightarrow> string option" where
  "extract_time_col df =
     (let ano = py_or (find_col df [''ano''] (Some [tok_codigo_acc, ''codigo'']))
                      (find_col df [''ano''] None)
      in case truthy ano of
           Some c \<Rightarrow> ano
         | None \<Rightarrow>
             (let mes = py_or (find_col df [tok_mes_acc] None) (find_col df [''mes''] None)
              in case truthy mes of
                   Some c \<Rightarrow> mes
                 | None \<Rightarrow> py_or (find_col df [tok_periodo_acc] None)
                                 (find_col df [''periodo''] None)))"

text \<open>A float column as cells.\<close>

definition flt_cell :: "fl option \<Rightarrow> cell" where
  "flt_cell x = (case x of Some v \<Rightarrow> FltC v | None \<Rightarrow> NA)"

text \<open>
  \<open>.astype("Int64")\<close> on a column. A missing value becomes \<open>pd.NA\<close>, an integer stays, and
  an integral float inside the int64 range becomes that integer. An infinity in the column
  makes pandas raise \<open>OverflowError\<close>; otherwise a float with a fraction or outside the
  range makes it raise \<open>TypeError: cannot safely cast non-equivalent float64 to int64\<close>.
  The error is for the whole column. No column that the program casts holds text; the
  model counts a text cell as not castable.
\<close>

definition is_inf :: "cell \<Rightarrow> bool" where
  "is_inf c = (c = FltC PInf \<or> c = FltC NInf)"

definition int64_safe :: "cell \<Rightarrow> bool" where
  "int64_safe c =
     (case c of
        NA \<Rightarrow> True
      | IntC i \<Rightarrow> True
      | FltC (Fin q) \<Rightarrow> of_int \<lfloor>q\<rfloor> = q \<and> - (2 ^ 63) \<le> \<lfloor>q\<rfloor> \<and> \<lfloor>q\<rfloor> < 2 ^ 63
      | _ \<Rightarrow> False)"

definition int64_cell :: "cell \<Rightarrow> cell" where
  "int64_cell c = (case c of IntC i \<Rightarrow> IntC i | FltC (Fin q) \<Rightarrow> IntC \<lfloor>q\<rfloor> | _ \<Rightarrow> NA)"

definition astype_Int64 :: "cell series \<Rightarrow> error + cell series" where
  "astype_Int64 s =
     (if list_ex (\<lambda>(l, c). is_inf c) s then Inl OverflowError
      else if list_all (\<lambda>(l, c). int64_safe c) s
           then Inr (map (\<lambda>(l, c). (l, int64_cell c)) s)
           else Inl TypeError)"

text \<open>\<open>pd.Series([v] * n)\<close>: the value \<open>n\<close> times under a fresh default index.\<close>

definition const_series :: "nat \<Rightarrow> 'a \<Rightarrow> 'a series" where
  "const_series n v = map (\<lambda>i. (i, v)) [0..<n]"

text \<open>
  \<open>out[c] = s\<close> for a Series \<open>s\<close>. A frame with an empty index takes the index of a non-empty
  \<open>s\<close> (pandas' \<open>_ensure_valid_index\<close>); then \<open>s\<close> is aligned to the frame's index: a row whose
  label is absent from \<open>s\<close> gets the missing value. A new name is appended to the columns.
\<close>

definition setitem :: "frame \<Rightarrow> string \<Rightarrow> cell series \<Rightarrow> frame" where
  "setitem f c s =
     (let base = (if frows f = [] \<and> s \<noteq> [] then map (\<lambda>(l, v). (l, \<lambda>k. NA)) s else frows f)
      in \<lparr>fcolumns = (if c \<in> set (fcolumns f) then fcolumns f else fcolumns f @ [c]),
          frows = map (\<lambda>(l, r). (l, r(c := (case map_of s l of Some v \<Rightarrow> v | None \<Rightarrow> NA))))
                      base\<rparr>)"

text \<open>\<open>out[c]\<close>.\<close>

definition getitem :: "frame \<Rightarrow> string \<Rightarrow> cell series" where
  "getitem f c = map (\<lambda>(l, r). (l, r c)) (frows f)"

text \<open>\<open>pd.DataFrame()\<close>.\<close>

definition empty_frame :: frame where
  "empty_frame = \<lparr>fcolumns = [], frows = []\<rparr>"

text \<open>\<open>out.loc[out[c].notna()]\<close>.\<close>

definition loc_notna :: "frame \<Rightarrow> string \<Rightarrow> frame" where
  "loc_notna f c = f\<lparr>frows := filter (\<lambda>(l, r). r c \<noteq> NA) (frows f)\<rparr>"

text \<open>The extra dimension columns of lines 150-157, in column order.\<close>

definition extra_dims :: "work_frame \<Rightarrow> string list" where
  "extra_dims df = filter (\<lambda>c. match_dim (CHR ''C'') c \<or> match_dim (CHR ''N'') c) (wcolumns df)"

text \<open>Line 115, \<open>df["__value__"] = _coerce_numeric(df["V"])\<close>.\<close>

definition set_value :: "work_frame \<Rightarrow> fl option series \<Rightarrow> work_frame" where
  "set_value df v =
     df\<lparr>wcolumns := (if ''__value__'' \<in> set (wcolumns df) then wcolumns df
                     else wcolumns df @ [''__value__'']),
        wvalue := v\<rparr>"

text \<open>The code column of lines 120-128 and the year column of lines 141-145: the column
  found, through \<open>pd.to_numeric\<close> and \<open>astype("Int64")\<close>, or a column of \<open>pd.NA\<close> under a fresh
  default index.\<close>

definition int64_column :: "to_numeric \<Rightarrow> work_frame \<Rightarrow> string option \<Rightarrow> error + cell series" where
  "int64_column num df col =
     (case truthy col of
        Some c \<Rightarrow>
          astype_Int64 (map (\<lambda>(l, x). (l, flt_cell x)) (to_numeric_s num (getitem_w df c)))
      | None \<Rightarrow> Inr (const_series (length (wrows df)) NA))"

text \<open>The name column of lines 130-139.\<close>

definition name_column :: "work_frame \<Rightarrow> string option \<Rightarrow> cell series" where
  "name_column df muni_name_col =
     (case truthy muni_name_col of
        Some c \<Rightarrow> map (\<lambda>(l, x). (l, StrC x)) (getitem_w df c)
      | None \<Rightarrow>
          (case truthy (find_name_col df ''territ'') of
             Some c \<Rightarrow> map (\<lambda>(l, x). (l, StrC x)) (getitem_w df c)
           | None \<Rightarrow> const_series (length (wrows df)) (StrC '''')))"

text \<open>The column that lines 120-128 read the code from: the municipality code column,
  else the territory code column, else none.\<close>

definition code_col :: "work_frame \<Rightarrow> string option \<Rightarrow> string option" where
  "code_col df muni_code_col =
     (case truthy muni_code_col of
        Some c \<Rightarrow> muni_code_col
      | None \<Rightarrow> find_col df [''territ''] (Some [tok_codigo_acc, ''codigo'']))"

definition code_column :: "to_numeric \<Rightarrow> work_frame \<Rightarrow> string option \<Rightarrow> error + cell series" where
  "code_column num df muni_code_col = int64_column num df (code_col df muni_code_col)"

text \<open>Lines 149-157: with \<open>keep_extra_dims\<close>, every extra dimension column is assigned to
  \<open>out\<close> under its own name.\<close>

definition add_extra_dims :: "bool \<Rightarrow> work_frame \<Rightarrow> frame \<Rightarrow> frame" where
  "add_extra_dims keep_extra_dims df out =
     (if keep_extra_dims
      then fold (\<lambda>k acc. setitem acc k (map (\<lambda>(l, x). (l, StrC x)) (getitem_w df k)))
                (extra_dims df) out
      else out)"

text \<open>Lines 159-164: the rows without value are dropped; then the columns \<open>code_muni\<close> and
  \<open>ano\<close> are cast to Int64, one after the other.\<close>

definition finish :: "frame \<Rightarrow> string \<Rightarrow> error + frame" where
  "finish out value_name =
     (let out = loc_notna out value_name
      in case astype_Int64 (getitem out ''code_muni'') of
           Inl e \<Rightarrow> Inl e
         | Inr code_s \<Rightarrow>
             (let out = setitem out ''code_muni'' code_s
              in case astype_Int64 (getitem out ''ano'') of
                   Inl e \<Rightarrow> Inl e
                 | Inr ano_s \<Rightarrow> Inr (setitem out ''ano'' ano_s)))"

text \<open>\<open>normalize_sidra_table\<close> (lines 90-166).\<close>

definition normalize_sidra_table ::
  "to_numeric \<Rightarrow> raw_table \<Rightarrow> string \<Rightarrow> bool \<Rightarrow> error + frame" where
  "normalize_sidra_table num df_raw value_name keep_extra_dims =
     (let df = copy_raw df_raw;
          df = drop_header_like_rows num df;
          (muni_code_col, muni_name_col) = extract_muni_cols df;
          time_col = extract_time_col df
      in if ''V'' \<notin> set (wcolumns df) then Inl ValueError
         else
           let df = set_value df (coerce_numeric num (getitem_w df ''V''));
               out = empty_frame
           in case code_column num df muni_code_col of
                Inl e \<Rightarrow> Inl e
              | Inr code_s \<Rightarrow>
                  let out = setitem out ''code_muni'' code_s;
                      out = setitem out ''municipio'' (name_column df muni_name_col)
                  in case int64_column num df time_col of
                       Inl e \<Rightarrow> Inl e
                     | Inr ano_s \<Rightarrow>
                         let out = setitem out ''ano'' ano_s;
                             out = setitem out value_name
                                     (map (\<lambda>(l, x). (l, flt_cell x)) (wvalue df));
                             out = add_extra_dims keep_extra_dims df out
                         in finish out value_name)"

text \<open>A row written as a list of column names and cells.\<close>

definition row_of :: "(string \<times> string) list \<Rightarrow> string \<Rightarrow> string" where
  "row_of kvs c = (case map_of kvs c of Some v \<Rightarrow> v | None \<Rightarrow> [])"

section \<open>The panel\<close>

text \<open>
  The municipality reference as \<open>get_municipios_uf\<close> builds it from the list of
  municipalities: one row per municipality with the integer \<open>id_municipio\<close> and the name
  \<open>municipio\<close>. From an empty list \<open>pd.DataFrame([])\<close> has no columns at all.
  Lines 186-188 copy the reference, rename \<open>id_municipio\<close> to \<open>code_muni\<close> and cast the
  codes to \<open>Int64\<close>: without columns \<open>mun["code_muni"]\<close> raises \<open>KeyError\<close>, a code outside
  the int64 range makes the cast raise \<open>TypeError\<close>, and otherwise the codes stay as they
  are.
\<close>

definition mun_table :: "(int \<times> string) list \<Rightarrow> frame" where
  "mun_table mun_uf =
     \<lparr>fcolumns = [''code_muni'', ''municipio''],
      frows = enumerate 0
                (map (\<lambda>(i, n). (\<lambda>k. NA)(''code_muni'' := IntC i, ''municipio'' := StrC n))
                     mun_uf)\<rparr>"

definition mun_frame :: "(int \<times> string) list \<Rightarrow> error + frame" where
  "mun_frame mun_uf =
     (if mun_uf = [] then Inl KeyError
      else if list_ex (\<lambda>(i, n). i < - (2 ^ 63) \<or> 2 ^ 63 \<le> i) mun_uf then Inl TypeError
      else Inr (mun_table mun_uf))"

text \<open>\<open>f[[c1, c2, ...]]\<close> for columns that exist.\<close>

definition select :: "frame \<Rightarrow> string list \<Rightarrow> frame" where
  "select f cols = f\<lparr>fcolumns := cols\<rparr>"

text \<open>\<open>f.dropna(subset=[...])\<close>.\<close>

definition dropna :: "frame \<Rightarrow> string list \<Rightarrow> frame" where
  "dropna f cols = f\<lparr>frows := filter (\<lambda>(l, r). list_all (\<lambda>c. r c \<noteq> NA) cols) (frows f)\<rparr>"

text \<open>
  The columns of \<open>left.merge(right, on=..., suffixes=...)\<close>: the left columns, then the right
  columns that are not keys; a name that both sides have outside the keys takes the left
  suffix on the left and the right suffix on the right (pandas' default is \<open>("_x", "_y")\<close>).
  Each entry is the new name, the side (\<open>True\<close> is left) and the column it comes from.
\<close>

definition merge_names ::
  "string list \<Rightarrow> string list \<Rightarrow> string list \<Rightarrow> string \<times> string \<Rightarrow> (string \<times> bool \<times> string) list" where
  "merge_names lcols rcols on sfx =
     (let overlap = (\<lambda>c. c \<in> set lcols \<and> c \<in> set rcols \<and> c \<notin> set on)
      in map (\<lambda>c. (if overlap c then c @ fst sfx else c, True, c)) lcols @
         map (\<lambda>c. (if overlap c then c @ snd sfx else c, False, c))
             (filter (\<lambda>c. c \<notin> set on) rcols))"

datatype how = Inner | LeftJ

text \<open>
  \<open>left.merge(right, on=on, how=how, suffixes=sfx)\<close>: every left row, in order, is paired
  with the right rows that agree with it on the key columns, in their order; a left row
  with no partner is dropped by an inner join and kept with missing right cells by a left
  join. The result has a fresh default index.
\<close>

definition joined_row ::
  "(string \<times> bool \<times> string) list \<Rightarrow> (string \<Rightarrow> cell) \<Rightarrow> (string \<Rightarrow> cell) option \<Rightarrow> string \<Rightarrow> cell" where
  "joined_row names l ro c =
     (case map_of names c of
        Some (True, c0) \<Rightarrow> l c0
      | Some (False, c0) \<Rightarrow> (case ro of Some r \<Rightarrow> r c0 | None \<Rightarrow> NA)
      | None \<Rightarrow> NA)"

definition partners :: "string list \<Rightarrow> (string \<Rightarrow> cell) list \<Rightarrow> (string \<Rightarrow> cell) \<Rightarrow> (string \<Rightarrow> cell) list" where
  "partners on rs l = filter (\<lambda>r. list_all (\<lambda>k. l k = r k) on) rs"

definition merge_rows ::
  "how \<Rightarrow> (string \<times> bool \<times> string) list \<Rightarrow> string list \<Rightarrow>
   (string \<Rightarrow> cell) list \<Rightarrow> (string \<Rightarrow> cell) list \<Rightarrow> (string \<Rightarrow> cell) list" where
  "merge_rows hw names on ls rs =
     concat (map (\<lambda>l. if partners on rs l = []
                      then (if hw = LeftJ then [joined_row names l None] else [])
                      else map (\<lambda>r. joined_row names l (Some r)) (partners on rs l))
                 ls)"

definition merge :: "how \<Rightarrow> frame \<Rightarrow> frame \<Rightarrow> string list \<Rightarrow> string \<times> string \<Rightarrow> frame" where
  "merge hw left right on sfx =
     (let names = merge_names (fcolumns left) (fcolumns right) on sfx
      in \<lparr>fcolumns = map fst names,
          frows = enumerate 0 (merge_rows hw names on (map snd (frows left))
                                          (map snd (frows right)))\<rparr>)"

text \<open>
  \<open>f.groupby(k, as_index=False)[v].max()\<close> for an Int64 key and a float value: one row per
  key, keys ascending, with the largest non-missing value of the group (missing when the
  group has none).
\<close>

definition group_keys :: "frame \<Rightarrow> string \<Rightarrow> int list" where
  "group_keys f k =
     sort (remdups (List.map_filter (\<lambda>(l, r). case r k of IntC i \<Rightarrow> Some i | _ \<Rightarrow> None)
                                    (frows f)))"

definition group_values :: "frame \<Rightarrow> string \<Rightarrow> string \<Rightarrow> int \<Rightarrow> fl list" where
  "group_values f k v i =
     List.map_filter (\<lambda>(l, r). if r k = IntC i then (case r v of FltC x \<Rightarrow> Some x | _ \<Rightarrow> None)
                                else None)
                     (frows f)"

definition max_cell :: "fl list \<Rightarrow> cell" where
  "max_cell xs = (case xs of [] \<Rightarrow> NA | x # t \<Rightarrow> FltC (fold max t x))"

definition groupby_max :: "frame \<Rightarrow> string \<Rightarrow> string \<Rightarrow> frame" where
  "groupby_max f k v =
     \<lparr>fcolumns = [k, v],
      frows = enumerate 0
                (map (\<lambda>i. (\<lambda>c. NA)(k := IntC i, v := max_cell (group_values f k v i)))
                     (group_keys f k))\<rparr>"

text \<open>\<open>a / b\<close> on two float columns of one frame, cell by cell: NaN when an operand is
  missing.\<close>

definition cell_div :: "cell \<Rightarrow> cell \<Rightarrow> cell" where
  "cell_div a b = (case (a, b) of (FltC x, FltC y) \<Rightarrow> flt_cell (fdiv x y) | _ \<Rightarrow> NA)"

definition series_div :: "cell series \<Rightarrow> cell series \<Rightarrow> cell series" where
  "series_div s t =
     map (\<lambda>(l, a). (l, case map_of t l of Some b \<Rightarrow> cell_div a b | None \<Rightarrow> NA)) s"

text \<open>\<open>np.where(area.notna() & (area > 0), pib / area, np.nan)\<close>: an array, without index.\<close>

definition positive :: "cell \<Rightarrow> bool" where
  "positive a = (case a of FltC x \<Rightarrow> Fin 0 < x | _ \<Rightarrow> False)"

definition where_area :: "cell series \<Rightarrow> cell series \<Rightarrow> cell list" where
  "where_area area q =
     map (\<lambda>((l, a), (m, d)). if a \<noteq> NA \<and> positive a then d else NA) (zip area q)"

text \<open>\<open>f[c] = array\<close>: the values are assigned by position (their number is the number of
  rows).\<close>

definition setitem_array :: "frame \<Rightarrow> string \<Rightarrow> cell list \<Rightarrow> frame" where
  "setitem_array f c vs =
     \<lparr>fcolumns = (if c \<in> set (fcolumns f) then fcolumns f else fcolumns f @ [c]),
      frows = map (\<lambda>((l, r), v). (l, r(c := v))) (zip (frows f) vs)\<rparr>"

text \<open>
  \<open>f.sort_values(["ano", "pib"], ascending=[True, False])\<close>: a stable sort on the year
  ascending and then the value descending; a missing key sorts last.
\<close>

definition asc_key :: "cell \<Rightarrow> nat \<times> int" where
  "asc_key c = (case c of IntC i \<Rightarrow> (0, i) | _ \<Rightarrow> (1, 0))"

definition desc_key :: "cell \<Rightarrow> nat \<times> fl" where
  "desc_key c = (case c of FltC x \<Rightarrow> (0, fneg x) | _ \<Rightarrow> (1, Fin 0))"

definition row_key :: "(string \<Rightarrow> cell) \<Rightarrow> (nat \<times> int) \<times> (nat \<times> fl)" where
  "row_key r = (asc_key (r ''ano''), desc_key (r ''pib''))"

definition sort_values :: "frame \<Rightarrow> frame" where
  "sort_values f = f\<lparr>frows := sort_key (\<lambda>(l, r). row_key r) (frows f)\<rparr>"

text \<open>\<open>f.reset_index(drop=True)\<close>.\<close>

definition reset_index :: "frame \<Rightarrow> frame" where
  "reset_index f = f\<lparr>frows := enumerate 0 (map snd (frows f))\<rparr>"

text \<open>The steps of \<open>build_panel\<close> on the three normalised tables: the area aggregate
  (lines 195-199), the join of value and population (lines 201-210), the two enrichments
  (lines 213 and 216), the derived columns (lines 219-220) and the ordering (line 223).\<close>

definition area_agg :: "frame \<Rightarrow> frame" where
  "area_agg area = groupby_max (dropna area [''code_muni'']) ''code_muni'' ''area''"

definition merge_pib_pop :: "frame \<Rightarrow> frame \<Rightarrow> frame" where
  "merge_pib_pop pib pop =
     merge Inner (dropna pib [''code_muni'', ''ano'']) (dropna pop [''code_muni'', ''ano''])
           [''code_muni'', ''ano''] ('''', ''_pop'')"

definition derive :: "frame \<Rightarrow> frame" where
  "derive panel =
     (let panel = setitem panel ''pib_pc''
                    (series_div (getitem panel ''pib'') (getitem panel ''pop''))
      in setitem_array panel ''pib_km2''
           (where_area (getitem panel ''area'')
                       (series_div (getitem panel ''pib'') (getitem panel ''area''))))"

definition enrich :: "frame \<Rightarrow> frame \<Rightarrow> frame \<Rightarrow> frame \<Rightarrow> frame" where
  "enrich mun pib pop area =
     (let agg = area_agg area;
          panel = merge_pib_pop pib pop;
          panel = merge LeftJ panel (select mun [''code_muni'', ''municipio'']) [''code_muni'']
                        (''_x'', ''_y'');
          panel = merge LeftJ panel agg [''code_muni''] (''_x'', ''_y'')
      in panel)"

definition assemble :: "frame \<Rightarrow> frame \<Rightarrow> frame \<Rightarrow> frame \<Rightarrow> frame" where
  "assemble mun pib pop area =
     (let panel = enrich mun pib pop area;
          panel = derive panel
      in reset_index (sort_values panel))"

text \<open>\<open>build_panel\<close> (lines 172-225).\<close>

definition build_panel ::
  "to_numeric \<Rightarrow> (int \<times> string) list \<Rightarrow> raw_table \<Rightarrow> raw_table \<Rightarrow> raw_table \<Rightarrow> error + frame" where
  "build_panel num mun_uf pib_raw pop_raw area_raw =
     (case mun_frame mun_uf of
        Inl e \<Rightarrow> Inl e
      | Inr mun \<Rightarrow>
          (case normalize_sidra_table num pib_raw ''pib'' False of
             Inl e \<Rightarrow> Inl e
           | Inr pib \<Rightarrow>
               (case normalize_sidra_table num pop_raw ''pop'' False of
                  Inl e \<Rightarrow> Inl e
                | Inr pop \<Rightarrow>
                    (case normalize_sidra_table num area_raw ''area'' False of
                       Inl e \<Rightarrow> Inl e
                     | Inr area \<Rightarrow> Inr (assemble mun pib pop area)))))"

section \<open>Notions used to state the properties\<close>

text \<open>The numeric coercion rule in the words of the specification: on the text of a cell,
  remove every point, turn every comma into a point, and parse.\<close>

definition coerce_rule :: "to_numeric \<Rightarrow> string \<Rightarrow> fl option" where
  "coerce_rule num s =
     num (map (\<lambda>c. if c = CHR '','' then CHR ''.'' else c) (filter (\<lambda>c. c \<noteq> CHR ''.'') s))"

text \<open>The working frame after the header rows are dropped (line 104) and after the value
  column is added (line 115).\<close>

definition header_dropped :: "to_numeric \<Rightarrow> raw_table \<Rightarrow> work_frame" where
  "header_dropped num t = drop_header_like_rows num (copy_raw t)"

definition work_df :: "to_numeric \<Rightarrow> raw_table \<Rightarrow> work_frame" where
  "work_df num t =
     set_value (header_dropped num t)
       (coerce_numeric num (getitem_w (header_dropped num t) ''V''))"

text \<open>The columns that the program reads the code and the year from, if any.\<close>

definition chosen_code :: "to_numeric \<Rightarrow> raw_table \<Rightarrow> string option" where
  "chosen_code num t =
     truthy (code_col (work_df num t) (fst (extract_muni_cols (header_dropped num t))))"

definition chosen_time :: "to_numeric \<Rightarrow> raw_table \<Rightarrow> string option" where
  "chosen_time num t = truthy (extract_time_col (header_dropped num t))"

text \<open>The value of a Series at a label; missing when the label is absent.\<close>

definition lookup :: "cell series \<Rightarrow> nat \<Rightarrow> cell" where
  "lookup s l = (case map_of s l of Some v \<Rightarrow> v | None \<Rightarrow> NA)"

text \<open>The column that line 147 assigns to \<open>out[value_name]\<close>, and its value at a label.\<close>

definition value_series :: "to_numeric \<Rightarrow> raw_table \<Rightarrow> cell series" where
  "value_series num t = map (\<lambda>(l, x). (l, flt_cell x)) (wvalue (work_df num t))"

definition value_at :: "to_numeric \<Rightarrow> raw_table \<Rightarrow> nat \<Rightarrow> cell" where
  "value_at num t l = lookup (value_series num t) l"

text \<open>Every row of the frame has, in column \<open>k\<close>, the cell that \<open>G\<close> gives for its label.\<close>

definition col_is :: "frame \<Rightarrow> string \<Rightarrow> (nat \<Rightarrow> cell) \<Rightarrow> bool" where
  "col_is f k G = (\<forall>(l, r) \<in> set (frows f). r k = G l)"

text \<open>The cells of an Int64 column and of a float column without NaN.\<close>

definition int_or_na :: "cell \<Rightarrow> bool" where
  "int_or_na c = (case c of IntC i \<Rightarrow> True | NA \<Rightarrow> True | _ \<Rightarrow> False)"

definition is_flt :: "cell \<Rightarrow> bool" where
  "is_flt c = (case c of FltC x \<Rightarrow> True | _ \<Rightarrow> False)"

text \<open>The shape of a normalised table without extra dimensions.\<close>

definition tidy :: "string \<Rightarrow> frame \<Rightarrow> bool" where
  "tidy vn T =
     (fcolumns T = [''code_muni'', ''municipio'', ''ano'', vn] \<and>
      (\<forall>(l, r) \<in> set (frows T). int_or_na (r ''code_muni'') \<and> int_or_na (r ''ano'') \<and> is_flt (r vn)))"

text \<open>The two derived cells of a panel row (lines 219-220).\<close>

definition derived_row :: "(string \<Rightarrow> cell) \<Rightarrow> string \<Rightarrow> cell" where
  "derived_row r =
     r(''pib_pc'' := cell_div (r ''pib'') (r ''pop''),
       ''pib_km2'' := (if r ''area'' \<noteq> NA \<and> positive (r ''area'')
                       then cell_div (r ''pib'') (r ''area'') else NA))"

text \<open>The rows of a frame, without their labels.\<close>

definition rows_of :: "frame \<Rightarrow> (string \<Rightarrow> cell) list" where
  "rows_of f = map snd (frows f)"

text \<open>The rows of a normalised table that survive \<open>dropna(subset=["code_muni", "ano"])\<close>.\<close>

definition keyed :: "frame \<Rightarrow> (string \<Rightarrow> cell) list" where
  "keyed f = filter (\<lambda>r. r ''code_muni'' \<noteq> NA \<and> r ''ano'' \<noteq> NA) (rows_of f)"

text \<open>A row of the municipality reference.\<close>

definition mun_row :: "int \<Rightarrow> string \<Rightarrow> string \<Rightarrow> cell" where
  "mun_row i n = (\<lambda>k. NA)(''code_muni'' := IntC i, ''municipio'' := StrC n)"

text \<open>The rows that the three merges of \<open>build_panel\<close> build: from a value row and a
  population row; from such a row and the reference row it finds, if any; from such a row
  and the area row it finds, if any.\<close>

definition join1 :: "(string \<Rightarrow> cell) \<Rightarrow> (string \<Rightarrow> cell) \<Rightarrow> string \<Rightarrow> cell" where
  "join1 l r =
     (\<lambda>c. if c = ''code_muni'' then l ''code_muni''
          else if c = ''municipio'' then l ''municipio''
          else if c = ''ano'' then l ''ano''
          else if c = ''pib'' then l ''pib''
          else if c = ''municipio_pop'' then r ''municipio''
          else if c = ''pop'' then r ''pop'' else NA)"

definition join2 :: "(string \<Rightarrow> cell) \<Rightarrow> (string \<Rightarrow> cell) option \<Rightarrow> string \<Rightarrow> cell" where
  "join2 l ro =
     (\<lambda>c. if c = ''code_muni'' then l ''code_muni''
          else if c = ''municipio_x'' then l ''municipio''
          else if c = ''ano'' then l ''ano''
          else if c = ''pib'' then l ''pib''
          else if c = ''municipio_pop'' then l ''municipio_pop''
          else if c = ''pop'' then l ''pop''
          else if c = ''municipio_y'' then (case ro of Some r \<Rightarrow> r ''municipio'' | None \<Rightarrow> NA)
          else NA)"

definition join3 :: "(string \<Rightarrow> cell) \<Rightarrow> (string \<Rightarrow> cell) option \<Rightarrow> string \<Rightarrow> cell" where
  "join3 l ro =
     (\<lambda>c. if c = ''code_muni'' then l ''code_muni''
          else if c = ''municipio_x'' then l ''municipio_x''
          else if c = ''ano'' then l ''ano''
          else if c = ''pib'' then l ''pib''
          else if c = ''municipio_pop'' then l ''municipio_pop''
          else if c = ''pop'' then l ''pop''
          else if c = ''municipio_y'' then l ''municipio_y''
          else if c = ''area'' then (case ro of Some r \<Rightarrow> r ''area'' | None \<Rightarrow> NA)
          else NA)"

text \<open>What a left join on the key \<open>k\<close> finds in the right rows \<open>rs\<close> for the key cell \<open>c\<close>:
  nothing, when no right row has that key, or one of the right rows with that key.\<close>

definition found ::
  "string \<Rightarrow> (string \<Rightarrow> cell) list \<Rightarrow> cell \<Rightarrow> (string \<Rightarrow> cell) option \<Rightarrow> bool" where
  "found k rs c ro =
     ((ro = None \<and> list_all (\<lambda>q. c \<noteq> q k) rs) \<or>
      list_ex (\<lambda>q. c = q k \<and> ro = Some q) rs)"

text \<open>A value row and a population row with the same municipality and year.\<close>

definition same_key :: "(string \<Rightarrow> cell) \<Rightarrow> (string \<Rightarrow> cell) \<Rightarrow> bool" where
  "same_key l r = (l ''code_muni'' = r ''code_muni'' \<and> l ''ano'' = r ''ano'')"

text \<open>The column \<open>k\<close> of the frame is \<open>G\<close>, and \<open>G\<close> is missing everywhere when the frame has
  no rows (so that the column stays \<open>G\<close> when a later assignment gives the frame its index).\<close>

definition col_holds :: "frame \<Rightarrow> string \<Rightarrow> (nat \<Rightarrow> cell) \<Rightarrow> bool" where
  "col_holds f k G = (col_is f k G \<and> (frows f = [] \<longrightarrow> (\<forall>l. G l = NA)))"

section \<open>Concrete tables\<close>

text \<open>A frame as its column names and, for every row, the label and the cells in column
  order.\<close>

definition view :: "frame \<Rightarrow> string list \<times> (nat \<times> cell list) list" where
  "view f = (fcolumns f, map (\<lambda>(l, r). (l, map r (fcolumns f))) (frows f))"

definition view_result :: "error + frame \<Rightarrow> error + string list \<times> (nat \<times> cell list) list" where
  "view_result res = map_sum id view res"

text \<open>The column names of the service, with their accents: the municipality code column and
  the municipality name column.\<close>

definition col_code :: string where
  "col_code = ''Munic'' @ CHR 0xED # ''pio (C'' @ CHR 0xF3 # ''digo)''"

definition col_name :: string where
  "col_name = ''Munic'' @ CHR 0xED # ''pio''"

text \<open>A table of one row: code, name, year and value.\<close>

definition one_row :: "string \<Rightarrow> string \<Rightarrow> string \<Rightarrow> string \<Rightarrow> raw_table" where
  "one_row code name year v =
     \<lparr>columns = [col_code, col_name, ''Ano'', ''V''],
      rows = [row_of [(col_code, code), (col_name, name), (''Ano'', year), (''V'', v)]]\<rparr>"

text \<open>A table with every column but \<open>V\<close>.\<close>

definition no_value_table :: raw_table where
  "no_value_table =
     \<lparr>columns = [col_code, col_name, ''Ano''],
      rows = [row_of [(col_code, ''5200050''), (col_name, ''Abadia''), (''Ano'', ''2020'')]]\<rparr>"

text \<open>A table whose \<open>V\<close> is text on every row: the embedded header row and a row of dots.\<close>

definition all_text_table :: raw_table where
  "all_text_table =
     \<lparr>columns = [col_code, col_name, ''Ano'', ''V''],
      rows = [row_of [(col_code, col_code), (col_name, col_name), (''Ano'', ''Ano''),
                      (''V'', ''Valor'')],
              row_of [(col_code, ''5200050''), (col_name, ''Abadia''), (''Ano'', ''2020''),
                      (''V'', ''...'')]]\<rparr>"

text \<open>A table with the embedded header row and two data rows in the Brazilian number
  format.\<close>

definition header_table :: raw_table where
  "header_table =
     \<lparr>columns = [col_code, col_name, ''Ano'', ''V''],
      rows = [row_of [(col_code, col_code), (col_name, col_name), (''Ano'', ''Ano''),
                      (''V'', ''Valor'')],
              row_of [(col_code, ''5200050''), (col_name, ''Abadia''), (''Ano'', ''2020''),
                      (''V'', ''1.234,56'')],
              row_of [(col_code, ''5200100''), (col_name, ''Abadiania''), (''Ano'', ''2020''),
                      (''V'', ''12,5'')]]\<rparr>"

text \<open>A table with the four columns of the service and one row for every code, name, year
  and value.\<close>

definition table_of :: "(string \<times> string \<times> string \<times> string) list \<Rightarrow> raw_table" where
  "table_of xs =
     \<lparr>columns = [col_code, col_name, ''Ano'', ''V''],
      rows = map (\<lambda>(c, n, y, v). row_of [(col_code, c), (col_name, n), (''Ano'', y), (''V'', v)])
                 xs\<rparr>"

text \<open>Area rows for the codes 10, 10 and 11 with the areas 5.0, 8.0 and 3.0, and value and
  population rows for the codes 10, 11 and 12.\<close>

definition area_rows_table :: raw_table where
  "area_rows_table =
     table_of [(''10'', ''A'', ''2020'', ''5,0''), (''10'', ''A'', ''2021'', ''8,0''),
               (''11'', ''B'', ''2020'', ''3,0'')]"

definition three_codes_table :: raw_table where
  "three_codes_table =
     table_of [(''10'', ''A'', ''2020'', ''100''), (''11'', ''B'', ''2020'', ''50''),
               (''12'', ''C'', ''2020'', ''7'')]"

text \<open>Value rows for the codes 1 and 2 and population rows for the codes 2 and 3, all of the
  year 2020.\<close>

definition codes_1_2_table :: raw_table where
  "codes_1_2_table =
     table_of [(''1'', ''Um'', ''2020'', ''10''), (''2'', ''Dois'', ''2020'', ''20'')]"

definition codes_2_3_table :: raw_table where
  "codes_2_3_table =
     table_of [(''2'', ''Dois'', ''2020'', ''200''), (''3'', ''Tres'', ''2020'', ''300'')]"

text \<open>Three municipalities with the value 100: the first with population 20 and area 10,
  the second with population 20 and area 0, the third with population 0 and no area row.\<close>

definition value_100_table :: raw_table where
  "value_100_table =
     table_of [(''1'', ''A'', ''2020'', ''100''), (''2'', ''B'', ''2020'', ''100''),
               (''3'', ''C'', ''2020'', ''100'')]"

definition pop_20_table :: raw_table where
  "pop_20_table =
     table_of [(''1'', ''A'', ''2020'', ''20''), (''2'', ''B'', ''2020'', ''20''),
               (''3'', ''C'', ''2020'', ''0'')]"

definition area_10_table :: raw_table where
  "area_10_table = table_of [(''1'', ''A'', ''2020'', ''10''), (''2'', ''B'', ''2020'', ''0'')]"

section \<open>Properties of the normaliser\<close>

lemma map_of_labelled:
  assumes "distinct (map fst rs)" "(l, r) \<in> set rs"
  shows "map_of (map (\<lambda>(l, r). (l, g r)) rs) l = Some (g r)"
proof -
  have "distinct (map fst (map (\<lambda>(l, r). (l, g r)) rs))"
    using assms(1) by (simp add: comp_def split_def)
  moreover have "(l, g r) \<in> set (map (\<lambda>(l, r). (l, g r)) rs)"
    using assms(2) by force
  ultimately show ?thesis by (rule map_of_is_SomeI)
qed

lemma replace_ne_single:
  "replace_ne [a] new s = concat (map (\<lambda>x. if x = a then new else [x]) s)"
  by (induction s) simp_all

lemma str_replace_point: "str_replace ''.'' '''' s = filter (\<lambda>c. c \<noteq> CHR ''.'') s"
  by (induction s) (simp_all add: str_replace_def replace_ne_single)

lemma str_replace_comma:
  "str_replace '','' ''.'' s = map (\<lambda>c. if c = CHR '','' then CHR ''.'' else c) s"
  by (induction s) (simp_all add: str_replace_def replace_ne_single)

lemma coerce_numeric_rule:
  "coerce_numeric num ser = map (\<lambda>(l, x). (l, coerce_rule num x)) ser"
  by (simp add: coerce_numeric_def to_numeric_s_def coerce_rule_def str_replace_point
      str_replace_comma split_def)

lemma wcolumns_drop_header:
  "wcolumns (drop_header_like_rows num df) = wcolumns df"
  by (simp add: drop_header_like_rows_def Let_def)

lemma wcolumns_header_dropped: "wcolumns (header_dropped num t) = columns t"
  by (simp add: header_dropped_def wcolumns_drop_header copy_raw_def)

lemma wrows_header_dropped_subset:
  "set (wrows (header_dropped num t)) \<subseteq> set (enumerate 0 (rows t))"
  by (auto simp: header_dropped_def drop_header_like_rows_def Let_def copy_raw_def)

lemma wrows_work_df: "wrows (work_df num t) = wrows (header_dropped num t)"
  by (simp add: work_df_def set_value_def)

lemma distinct_work_df: "distinct (map fst (wrows (work_df num t)))"
proof -
  have "distinct (map fst (filter P (enumerate 0 xs)))" for P and xs :: "(string \<Rightarrow> string) list"
    by (rule distinct_map_filter) simp
  then show ?thesis
    by (simp add: wrows_work_df header_dropped_def drop_header_like_rows_def Let_def copy_raw_def)
qed

lemma work_df_row:
  assumes "(l, r0) \<in> set (wrows (work_df num t))"
  shows "l < length (rows t) \<and> r0 = rows t ! l"
proof -
  from assms wrows_header_dropped_subset have "(l, r0) \<in> set (enumerate 0 (rows t))"
    by (auto simp: wrows_work_df)
  then show ?thesis by (auto simp: in_set_enumerate_eq)
qed

lemma normalize_no_V:
  "''V'' \<notin> set (columns t) \<Longrightarrow> normalize_sidra_table num t vn keep = Inl ValueError"
  by (simp add: normalize_sidra_table_def Let_def copy_raw_def wcolumns_drop_header
      split: prod.splits)

lemma normalize_shape:
  assumes "normalize_sidra_table num t vn keep = Inr T"
  shows "\<exists>code_s nm ano_s.
           int64_column num (work_df num t)
             (code_col (work_df num t) (fst (extract_muni_cols (header_dropped num t)))) =
             Inr code_s \<and>
           int64_column num (work_df num t) (extract_time_col (header_dropped num t)) =
             Inr ano_s \<and>
           finish (add_extra_dims keep (work_df num t)
                     (setitem (setitem (setitem (setitem empty_frame ''code_muni'' code_s)
                        ''municipio'' nm) ''ano'' ano_s) vn (value_series num t))) vn = Inr T"
  using assms
  unfolding normalize_sidra_table_def Let_def value_series_def work_df_def[symmetric]
    header_dropped_def[symmetric] code_column_def
  by (clarsimp split: prod.splits if_splits sum.splits; blast)

lemma setitem_cell:
  "(l, r) \<in> set (frows (setitem f c s)) \<Longrightarrow> r c = lookup s l"
  by (auto simp: setitem_def Let_def lookup_def split: if_splits)

lemma setitem_est: "col_is (setitem f k s) k (lookup s)"
  unfolding col_is_def using setitem_cell by blast

lemma setitem_nonempty: "frows (setitem f k s) = [] \<Longrightarrow> frows f = [] \<and> s = []"
  by (auto simp: setitem_def Let_def split: if_splits)

lemma setitem_pres:
  assumes "k' \<noteq> k" "col_is f k G" "frows f = [] \<longrightarrow> (\<forall>l. G l = NA)"
  shows "col_is (setitem f k' s) k G"
  using assms unfolding col_is_def setitem_def Let_def
  by (auto split: if_splits)

lemma lookup_empty: "lookup [] l = NA"
  by (simp add: lookup_def)

lemma fold_setitem_pres:
  assumes "\<forall>k' \<in> set ks. k' \<noteq> k" "col_is f k G" "frows f = [] \<longrightarrow> (\<forall>l. G l = NA)"
  shows "col_is (fold (\<lambda>k' acc. setitem acc k' (S k')) ks f) k G"
  using assms
proof (induction ks arbitrary: f)
  case Nil
  then show ?case by simp
next
  case (Cons a ks)
  have 1: "col_is (setitem f a (S a)) k G"
    using Cons.prems by (intro setitem_pres) auto
  have 2: "frows (setitem f a (S a)) = [] \<longrightarrow> (\<forall>l. G l = NA)"
    using Cons.prems(3) setitem_nonempty by blast
  from Cons.IH[OF _ 1 2] Cons.prems(1) show ?case by simp
qed

lemma add_extra_dims_pres:
  assumes "keep \<longrightarrow> k \<notin> set (extra_dims df)" "col_is f k G" "frows f = [] \<longrightarrow> (\<forall>l. G l = NA)"
  shows "col_is (add_extra_dims keep df f) k G"
proof (cases keep)
  case True
  with assms(1) have "\<forall>k' \<in> set (extra_dims df). k' \<noteq> k" by blast
  from fold_setitem_pres[OF this assms(2,3)] True show ?thesis
    by (simp add: add_extra_dims_def)
next
  case False
  with assms(2) show ?thesis by (simp add: add_extra_dims_def)
qed

lemma match_dim_head: "match_dim e k \<Longrightarrow> \<exists>t. k = CHR ''D'' # t"
  by (cases k) (auto simp: match_dim_def)

lemma extra_dims_not_canonical:
  "''code_muni'' \<notin> set (extra_dims df)" "''ano'' \<notin> set (extra_dims df)"
  by (auto simp: extra_dims_def dest: match_dim_head)
lemma astype_Int64_Inr:
  assumes "astype_Int64 s = Inr s'"
  shows "s' = map (\<lambda>(l, c). (l, int64_cell c)) s" "\<forall>(l, c) \<in> set s. int64_safe c"
  using assms by (auto simp: astype_Int64_def list_all_iff split: if_splits)

lemma int_or_na_int64_cell: "int_or_na (int64_cell c)"
  by (cases c) (auto simp: int64_cell_def int_or_na_def split: fl.splits)

lemma int64_cell_id: "int_or_na c \<Longrightarrow> int64_cell c = c"
  by (cases c) (auto simp: int64_cell_def int_or_na_def)

lemma int64_cell_notna: "int64_safe c \<Longrightarrow> c \<noteq> NA \<Longrightarrow> int64_cell c \<noteq> NA"
  by (cases c) (auto simp: int64_cell_def int64_safe_def split: fl.splits)

lemma map_of_label:
  assumes "map_of (map (\<lambda>(l, r). (l, g r)) rs) l = Some v"
  shows "\<exists>r. (l, r) \<in> set rs \<and> v = g r"
  using map_of_SomeD[OF assms] by auto

lemma map_of_label_ex:
  assumes "(l, r) \<in> set rs"
  shows "\<exists>r'. (l, r') \<in> set rs \<and> map_of (map (\<lambda>(l, r). (l, g r)) rs) l = Some (g r')"
proof -
  have "l \<in> fst ` set (map (\<lambda>(l, r). (l, g r)) rs)"
    using assms by force
  then obtain v where v: "map_of (map (\<lambda>(l, r). (l, g r)) rs) l = Some v"
    by (metis domD dom_map_of_conv_image_fst)
  from map_of_label[OF v] v show ?thesis by blast
qed

lemma cast_rows:
  assumes "astype_Int64 (getitem f c) = Inr s" "(l, r') \<in> set (frows (setitem f c s))"
  shows "\<exists>r r''. (l, r) \<in> set (frows f) \<and> (l, r'') \<in> set (frows f) \<and>
                  int64_safe (r'' c) \<and> r' = r(c := int64_cell (r'' c))"
proof -
  note s = astype_Int64_Inr[OF assms(1)]
  have s': "s = map (\<lambda>(l, r). (l, int64_cell (r c))) (frows f)"
    by (simp add: s(1) getitem_def split_def)
  have e: "frows f = [] \<longrightarrow> s = []" by (simp add: s')
  from assms(2) e obtain r where r: "(l, r) \<in> set (frows f)"
    and r': "r' = r(c := (case map_of s l of Some v \<Rightarrow> v | None \<Rightarrow> NA))"
    by (auto simp: setitem_def Let_def split: if_splits)
  from map_of_label_ex[OF r, of "\<lambda>r. int64_cell (r c)"] obtain r'' where
    r'': "(l, r'') \<in> set (frows f)" "map_of s l = Some (int64_cell (r'' c))"
    unfolding s' by blast
  from r''(1) s(2) have "int64_safe (r'' c)" by (force simp: getitem_def)
  with r r' r'' show ?thesis by auto
qed

lemma cast_pres:
  assumes "astype_Int64 (getitem f c) = Inr s" "col_is f k G" "k = c \<longrightarrow> (\<forall>l. int_or_na (G l))"
  shows "col_is (setitem f c s) k G"
  unfolding col_is_def
proof clarify
  fix l r' assume "(l, r') \<in> set (frows (setitem f c s))"
  from cast_rows[OF assms(1) this] obtain r r'' where
    r: "(l, r) \<in> set (frows f)" "(l, r'') \<in> set (frows f)" "r' = r(c := int64_cell (r'' c))"
    by blast
  from r(1,2) assms(2) have g: "r k = G l" "r'' k = G l" by (auto simp: col_is_def)
  show "r' k = G l"
  proof (cases "k = c")
    case True
    with assms(3) g(2) have "int64_cell (r'' c) = G l" by (simp add: int64_cell_id)
    with True r(3) show ?thesis by simp
  next
    case False
    with r(3) g(1) show ?thesis by simp
  qed
qed

lemma cast_notna:
  assumes "astype_Int64 (getitem f c) = Inr s" "\<forall>(l, r) \<in> set (frows f). r k \<noteq> NA"
  shows "\<forall>(l, r) \<in> set (frows (setitem f c s)). r k \<noteq> NA"
proof clarify
  fix l r' assume a: "(l, r') \<in> set (frows (setitem f c s))" and n: "r' k = NA"
  from cast_rows[OF assms(1) a] obtain r r'' where
    r: "(l, r) \<in> set (frows f)" "(l, r'') \<in> set (frows f)" "int64_safe (r'' c)"
       "r' = r(c := int64_cell (r'' c))"
    by blast
  from r(1,2) assms(2) have g: "r k \<noteq> NA" "r'' k \<noteq> NA" by auto
  show False
  proof (cases "k = c")
    case True
    with g(2) r(3) have "int64_cell (r'' c) \<noteq> NA" by (simp add: int64_cell_notna)
    with True r(4) n show False by simp
  next
    case False
    with r(4) g(1) n show False by simp
  qed
qed

lemma finish_Inr:
  assumes "finish out vn = Inr T"
  obtains s1 s2 where
    "astype_Int64 (getitem (loc_notna out vn) ''code_muni'') = Inr s1"
    "astype_Int64 (getitem (setitem (loc_notna out vn) ''code_muni'' s1) ''ano'') = Inr s2"
    "T = setitem (setitem (loc_notna out vn) ''code_muni'' s1) ''ano'' s2"
  using assms unfolding finish_def Let_def by (auto split: sum.splits)

lemma col_is_loc_notna: "col_is f k G \<Longrightarrow> col_is (loc_notna f c) k G"
  by (auto simp: col_is_def loc_notna_def)

lemma finish_pres:
  assumes "finish out vn = Inr T" "col_is out k G"
    "k = ''code_muni'' \<or> k = ''ano'' \<longrightarrow> (\<forall>l. int_or_na (G l))"
  shows "col_is T k G"
proof -
  from finish_Inr[OF assms(1)] obtain s1 s2 where
    s1: "astype_Int64 (getitem (loc_notna out vn) ''code_muni'') = Inr s1" and
    s2: "astype_Int64 (getitem (setitem (loc_notna out vn) ''code_muni'' s1) ''ano'') = Inr s2"
    and T: "T = setitem (setitem (loc_notna out vn) ''code_muni'' s1) ''ano'' s2"
    by blast
  have "col_is (setitem (loc_notna out vn) ''code_muni'' s1) k G"
    using assms(3) by (intro cast_pres[OF s1] col_is_loc_notna assms(2)) simp
  then show ?thesis
    unfolding T using assms(3) by (intro cast_pres[OF s2]) simp_all
qed

lemma finish_value_notna:
  assumes "finish out vn = Inr T"
  shows "\<forall>(l, r) \<in> set (frows T). r vn \<noteq> NA"
proof -
  from finish_Inr[OF assms(1)] obtain s1 s2 where
    s1: "astype_Int64 (getitem (loc_notna out vn) ''code_muni'') = Inr s1" and
    s2: "astype_Int64 (getitem (setitem (loc_notna out vn) ''code_muni'' s1) ''ano'') = Inr s2"
    and T: "T = setitem (setitem (loc_notna out vn) ''code_muni'' s1) ''ano'' s2"
    by blast
  have "\<forall>(l, r) \<in> set (frows (loc_notna out vn)). r vn \<noteq> NA"
    by (auto simp: loc_notna_def)
  from cast_notna[OF s2 cast_notna[OF s1 this]] show ?thesis
    unfolding T .
qed

lemma normalize_value_notna:
  assumes "normalize_sidra_table num t vn keep = Inr T"
  shows "\<forall>(l, r) \<in> set (frows T). r vn \<noteq> NA"
proof -
  from normalize_shape[OF assms] obtain out where "finish out vn = Inr T" by blast
  then show ?thesis by (rule finish_value_notna)
qed
lemma setitem_holds: "col_holds (setitem f k s) k (lookup s)"
  unfolding col_holds_def using setitem_est setitem_nonempty lookup_empty by blast

lemma setitem_holds_other:
  assumes "k' \<noteq> k" "col_holds f k G"
  shows "col_holds (setitem f k' s) k G"
  using assms setitem_pres[of k' k f G s] setitem_nonempty[of f k' s]
  unfolding col_holds_def by blast

lemma add_extra_dims_holds:
  assumes "keep \<longrightarrow> k \<notin> set (extra_dims df)" "col_holds f k G"
  shows "col_is (add_extra_dims keep df f) k G"
  using assms add_extra_dims_pres[of keep k df f G] unfolding col_holds_def by blast

lemma lookup_const_NA: "lookup (const_series n NA) l = NA"
  by (auto simp: lookup_def const_series_def split: option.splits dest!: map_of_SomeD)

lemma int_or_na_NA: "int_or_na NA"
  by (simp add: int_or_na_def)

lemma int64_column_series:
  assumes "int64_column num df col = Inr s" "truthy col = Some c"
  shows "s = map (\<lambda>(l, r). (l, int64_cell (flt_cell (num (r c))))) (wrows df)"
proof -
  from assms have
    "astype_Int64 (map (\<lambda>(l, x). (l, flt_cell x)) (to_numeric_s num (getitem_w df c))) = Inr s"
    by (simp add: int64_column_def)
  from astype_Int64_Inr(1)[OF this] show ?thesis
    by (simp add: to_numeric_s_def getitem_w_def split_def comp_def)
qed

lemma int64_column_none:
  assumes "int64_column num df col = Inr s" "truthy col = None"
  shows "s = const_series (length (wrows df)) NA"
  using assms by (auto simp: int64_column_def)

lemma int64_column_lookup:
  assumes "int64_column num df col = Inr s" "distinct (map fst (wrows df))"
    "(l, r0) \<in> set (wrows df)"
  shows "lookup s l =
         (case truthy col of Some c \<Rightarrow> int64_cell (flt_cell (num (r0 c))) | None \<Rightarrow> NA)"
proof (cases "truthy col")
  case None
  from int64_column_none[OF assms(1) None] None show ?thesis
    by (simp add: lookup_const_NA)
next
  case (Some c)
  from int64_column_series[OF assms(1) Some]
    map_of_labelled[OF assms(2,3), of "\<lambda>r. int64_cell (flt_cell (num (r c)))"] Some
  show ?thesis by (simp add: lookup_def)
qed

lemma int64_column_int:
  assumes "int64_column num df col = Inr s"
  shows "int_or_na (lookup s l)"
proof (cases "truthy col")
  case None
  from int64_column_none[OF assms(1) None] show ?thesis
    by (simp add: lookup_const_NA int_or_na_def)
next
  case (Some c)
  show ?thesis
    unfolding int64_column_series[OF assms(1) Some] lookup_def
    by (auto split: option.splits dest!: map_of_SomeD
        simp: int_or_na_int64_cell int_or_na_NA)
qed

lemma value_series_eq:
  "value_series num t =
     map (\<lambda>(l, r). (l, flt_cell (coerce_rule num (r ''V'')))) (wrows (work_df num t))"
  by (simp add: value_series_def work_df_def set_value_def coerce_numeric_rule getitem_w_def
      split_def comp_def)

lemma value_at_notna:
  assumes "value_at num t l \<noteq> NA"
  shows "(l, rows t ! l) \<in> set (wrows (work_df num t)) \<and> l < length (rows t) \<and>
         value_at num t l = flt_cell (coerce_rule num ((rows t ! l) ''V''))"
proof -
  from assms obtain v where v: "map_of (value_series num t) l = Some v" "value_at num t l = v"
    by (auto simp: value_at_def lookup_def split: option.splits)
  from map_of_label[OF v(1)[unfolded value_series_eq]] obtain r0 where
    r0: "(l, r0) \<in> set (wrows (work_df num t))" "v = flt_cell (coerce_rule num (r0 ''V''))"
    by blast
  from work_df_row[OF r0(1)] r0 v show ?thesis by simp
qed

lemma normalize_cols:
  assumes n: "normalize_sidra_table num t vn keep = Inr T"
    and v1: "vn \<noteq> ''code_muni''" and v2: "vn \<noteq> ''ano''"
    and v3: "keep \<longrightarrow> vn \<notin> set (extra_dims (work_df num t))"
  obtains code_s ano_s where
    "int64_column num (work_df num t)
       (code_col (work_df num t) (fst (extract_muni_cols (header_dropped num t)))) = Inr code_s"
    "int64_column num (work_df num t) (extract_time_col (header_dropped num t)) = Inr ano_s"
    "col_is T ''code_muni'' (lookup code_s)" "col_is T ''ano'' (lookup ano_s)"
    "col_is T vn (value_at num t)"
proof -
  from normalize_shape[OF n] obtain code_s nm ano_s where
    c: "int64_column num (work_df num t)
          (code_col (work_df num t) (fst (extract_muni_cols (header_dropped num t)))) =
        Inr code_s"
    and a: "int64_column num (work_df num t) (extract_time_col (header_dropped num t)) =
            Inr ano_s"
    and f: "finish (add_extra_dims keep (work_df num t)
                     (setitem (setitem (setitem (setitem empty_frame ''code_muni'' code_s)
                        ''municipio'' nm) ''ano'' ano_s) vn (value_series num t))) vn = Inr T"
    by blast
  let ?o1 = "setitem empty_frame ''code_muni'' code_s"
  let ?o2 = "setitem ?o1 ''municipio'' nm"
  let ?o3 = "setitem ?o2 ''ano'' ano_s"
  let ?o4 = "setitem ?o3 vn (value_series num t)"
  let ?o5 = "add_extra_dims keep (work_df num t) ?o4"
  have c4: "col_holds ?o4 ''code_muni'' (lookup code_s)"
    using v1 by (intro setitem_holds_other setitem_holds) simp_all
  have a4: "col_holds ?o4 ''ano'' (lookup ano_s)"
    using v2 by (intro setitem_holds_other setitem_holds) simp_all
  have w4: "col_holds ?o4 vn (lookup (value_series num t))"
    by (rule setitem_holds)
  have c5: "col_is ?o5 ''code_muni'' (lookup code_s)"
    by (rule add_extra_dims_holds[OF _ c4]) (simp add: extra_dims_not_canonical)
  have a5: "col_is ?o5 ''ano'' (lookup ano_s)"
    by (rule add_extra_dims_holds[OF _ a4]) (simp add: extra_dims_not_canonical)
  have w5: "col_is ?o5 vn (lookup (value_series num t))"
    by (rule add_extra_dims_holds[OF v3 w4])
  have cT: "col_is T ''code_muni'' (lookup code_s)"
    by (rule finish_pres[OF f c5]) (simp add: int64_column_int[OF c])
  have aT: "col_is T ''ano'' (lookup ano_s)"
    by (rule finish_pres[OF f a5]) (simp add: int64_column_int[OF a])
  have "col_is T vn (lookup (value_series num t))"
    by (rule finish_pres[OF f w5]) (simp add: v1 v2)
  then have wT: "col_is T vn (value_at num t)"
    by (simp add: col_is_def value_at_def)
  from that[OF c a cT aT wT] show ?thesis .
qed

lemma normalize_cells:
  assumes n: "normalize_sidra_table num t vn keep = Inr T"
    and v1: "vn \<noteq> ''code_muni''" and v2: "vn \<noteq> ''ano''"
    and v3: "keep \<longrightarrow> vn \<notin> set (extra_dims (work_df num t))"
    and lr: "(l, r) \<in> set (frows T)"
  shows "l < length (rows t)"
    and "r vn = flt_cell (coerce_rule num ((rows t ! l) ''V''))"
    and "r ''code_muni'' =
         (case chosen_code num t of
            Some c \<Rightarrow> int64_cell (flt_cell (num ((rows t ! l) c))) | None \<Rightarrow> NA)"
    and "r ''ano'' =
         (case chosen_time num t of
            Some c \<Rightarrow> int64_cell (flt_cell (num ((rows t ! l) c))) | None \<Rightarrow> NA)"
proof -
  from normalize_cols[OF n v1 v2 v3] obtain code_s ano_s where
    c: "int64_column num (work_df num t)
          (code_col (work_df num t) (fst (extract_muni_cols (header_dropped num t)))) =
        Inr code_s"
    and a: "int64_column num (work_df num t) (extract_time_col (header_dropped num t)) =
            Inr ano_s"
    and cT: "col_is T ''code_muni'' (lookup code_s)" and aT: "col_is T ''ano'' (lookup ano_s)"
    and wT: "col_is T vn (value_at num t)"
    by blast
  from wT lr have rv: "r vn = value_at num t l" by (auto simp: col_is_def)
  from bspec[OF normalize_value_notna[OF n] lr] have "r vn \<noteq> NA" by simp
  with rv have "value_at num t l \<noteq> NA" by simp
  from value_at_notna[OF this] have
    m: "(l, rows t ! l) \<in> set (wrows (work_df num t))" and len: "l < length (rows t)"
    and val: "value_at num t l = flt_cell (coerce_rule num ((rows t ! l) ''V''))"
    by simp_all
  show "l < length (rows t)" by (rule len)
  show "r vn = flt_cell (coerce_rule num ((rows t ! l) ''V''))" using rv val by simp
  from cT lr have "r ''code_muni'' = lookup code_s l" by (auto simp: col_is_def)
  then show "r ''code_muni'' =
         (case chosen_code num t of
            Some c \<Rightarrow> int64_cell (flt_cell (num ((rows t ! l) c))) | None \<Rightarrow> NA)"
    using int64_column_lookup[OF c distinct_work_df m] by (simp add: chosen_code_def)
  from aT lr have "r ''ano'' = lookup ano_s l" by (auto simp: col_is_def)
  then show "r ''ano'' =
         (case chosen_time num t of
            Some c \<Rightarrow> int64_cell (flt_cell (num ((rows t ! l) c))) | None \<Rightarrow> NA)"
    using int64_column_lookup[OF a distinct_work_df m] by (simp add: chosen_time_def)
qed
lemma all_missing_drops_all:
  assumes "''V'' \<in> set (columns t)"
    and "\<forall>(l, x) \<in> set (coerce_numeric num (getitem_w (copy_raw t) ''V'')). x = None"
  shows "wrows (header_dropped num t) = []"
proof -
  let ?v = "coerce_numeric num (getitem_w (copy_raw t) ''V'')"
  have "\<not> notna_at ?v l" for l
  proof
    assume "notna_at ?v l"
    then obtain x where "map_of ?v l = Some (Some x)"
      by (auto simp: notna_at_def split: option.splits)
    then have "(l, Some x) \<in> set ?v" by (rule map_of_SomeD)
    with assms(2) show False by auto
  qed
  then show ?thesis
    using assms(1)
    by (simp add: header_dropped_def drop_header_like_rows_def Let_def copy_raw_def)
qed

lemma astype_Int64_empty: "astype_Int64 [] = Inr []"
  by (simp add: astype_Int64_def)

lemma int64_column_empty: "wrows df = [] \<Longrightarrow> int64_column num df col = Inr []"
  by (simp add: int64_column_def getitem_w_def to_numeric_s_def astype_Int64_empty
      const_series_def split: option.splits)

lemma setitem_empty: "frows f = [] \<Longrightarrow> frows (setitem f c []) = []"
  by (simp add: setitem_def)

lemma add_extra_dims_empty:
  assumes "wrows df = []" "frows out = []"
  shows "frows (add_extra_dims keep df out) = []"
proof -
  have "frows acc = [] \<Longrightarrow>
        frows (fold (\<lambda>k acc. setitem acc k (map (\<lambda>(l, x). (l, StrC x)) (getitem_w df k)))
                 ks acc) = []"
    for ks acc
    by (induction ks arbitrary: acc) (simp_all add: getitem_w_def assms(1) setitem_empty)
  with assms(2) show ?thesis by (simp add: add_extra_dims_def)
qed

lemma finish_empty:
  assumes "frows out = []"
  shows "\<exists>T. finish out vn = Inr T \<and> frows T = []"
proof -
  have 1: "getitem (loc_notna out vn) c = []" for c
    using assms by (simp add: getitem_def loc_notna_def)
  have 2: "frows (setitem (loc_notna out vn) c []) = []" for c
    using assms by (simp add: setitem_def loc_notna_def)
  have 3: "getitem (setitem (loc_notna out vn) c []) c' = []" for c c'
    using 2 by (simp add: getitem_def)
  show ?thesis
    unfolding finish_def Let_def
    by (simp add: 1 3 astype_Int64_empty setitem_empty[OF 2])
qed

lemma normalize_all_missing:
  assumes "''V'' \<in> set (columns t)"
    and "\<forall>(l, x) \<in> set (coerce_numeric num (getitem_w (copy_raw t) ''V'')). x = None"
  shows "\<exists>T. normalize_sidra_table num t vn keep = Inr T \<and> frows T = []"
proof -
  have e: "wrows (header_dropped num t) = []" by (rule all_missing_drops_all[OF assms])
  then have e': "wrows (work_df num t) = []" by (simp add: wrows_work_df)
  have v: "wvalue (work_df num t) = []"
    by (simp add: work_df_def set_value_def getitem_w_def e coerce_numeric_def to_numeric_s_def)
  have V: "''V'' \<in> set (wcolumns (header_dropped num t))"
    using assms(1) by (simp add: wcolumns_header_dropped)
  have n: "name_column (work_df num t) c = []" for c
    by (simp add: name_column_def getitem_w_def e' const_series_def split: option.splits)
  let ?out = "add_extra_dims keep (work_df num t)
                (setitem (setitem (setitem (setitem empty_frame ''code_muni'' [])
                   ''municipio'' []) ''ano'' []) vn [])"
  have "frows ?out = []"
    by (intro add_extra_dims_empty e' setitem_empty) (simp add: empty_frame_def)
  from finish_empty[OF this] obtain T where T: "finish ?out vn = Inr T" "frows T = []"
    by blast
  have "normalize_sidra_table num t vn keep = finish ?out vn"
    unfolding normalize_sidra_table_def Let_def header_dropped_def[symmetric]
      work_df_def[symmetric] code_column_def
    using V by (simp add: int64_column_empty[OF e'] n v split: prod.splits)
  with T show ?thesis by simp
qed

lemma fcolumns_setitem:
  "fcolumns (setitem f c s) = (if c \<in> set (fcolumns f) then fcolumns f else fcolumns f @ [c])"
  by (simp add: setitem_def Let_def)

lemma fcolumns_finish:
  assumes "finish out vn = Inr T" "''code_muni'' \<in> set (fcolumns out)"
    "''ano'' \<in> set (fcolumns out)"
  shows "fcolumns T = fcolumns out"
proof -
  from finish_Inr[OF assms(1)] obtain s1 s2 where
    "T = setitem (setitem (loc_notna out vn) ''code_muni'' s1) ''ano'' s2"
    by blast
  with assms(2,3) show ?thesis
    by (simp add: fcolumns_setitem loc_notna_def)
qed

lemma tidy_row_iff:
  "tidy vn T \<longleftrightarrow>
     fcolumns T = [''code_muni'', ''municipio'', ''ano'', vn] \<and>
     (\<forall>(l, r) \<in> set (frows T).
        int_or_na (r ''code_muni'') \<and> int_or_na (r ''ano'') \<and> is_flt (r vn))"
  by (simp add: tidy_def)

lemma normalize_tidy:
  assumes n: "normalize_sidra_table num t vn False = Inr T"
    and v: "vn \<notin> set [''code_muni'', ''municipio'', ''ano'']"
  shows "tidy vn T"
proof -
  from v have v1: "vn \<noteq> ''code_muni''" and v2: "vn \<noteq> ''ano''" and v0: "vn \<noteq> ''municipio''"
    by auto
  from normalize_shape[OF n] obtain code_s nm ano_s where
    f: "finish (add_extra_dims False (work_df num t)
                     (setitem (setitem (setitem (setitem empty_frame ''code_muni'' code_s)
                        ''municipio'' nm) ''ano'' ano_s) vn (value_series num t))) vn = Inr T"
    by blast
  have cols: "fcolumns T = [''code_muni'', ''municipio'', ''ano'', vn]"
    using v1 v2 v0 fcolumns_finish[OF f]
    by (simp add: add_extra_dims_def fcolumns_setitem empty_frame_def)
  have "int_or_na (r ''code_muni'') \<and> int_or_na (r ''ano'') \<and> is_flt (r vn)"
    if lr: "(l, r) \<in> set (frows T)" for l r
  proof -
    note c = normalize_cells[OF n v1 v2 _ lr, simplified]
    have "is_flt (r vn)"
      using c(2) bspec[OF normalize_value_notna[OF n] lr]
      by (auto simp: flt_cell_def is_flt_def split: option.splits)
    moreover have "int_or_na (r ''code_muni'')"
      unfolding c(3) by (simp add: int_or_na_int64_cell int_or_na_NA split: option.splits)
    moreover have "int_or_na (r ''ano'')"
      unfolding c(4) by (simp add: int_or_na_int64_cell int_or_na_NA split: option.splits)
    ultimately show ?thesis by simp
  qed
  with cols show ?thesis unfolding tidy_def by blast
qed

section \<open>Properties of the panel builder\<close>

lemma build_panel_no_V:
  assumes "''V'' \<notin> set (columns pib_raw) \<or> ''V'' \<notin> set (columns pop_raw) \<or>
           ''V'' \<notin> set (columns area_raw)"
  shows "isl (build_panel num mun_uf pib_raw pop_raw area_raw)"
  using assms by (auto simp: build_panel_def normalize_no_V split: sum.splits)

lemma build_panel_no_V_pib:
  "\<not> isl (mun_frame mun_uf) \<Longrightarrow> ''V'' \<notin> set (columns pib_raw) \<Longrightarrow>
   build_panel num mun_uf pib_raw pop_raw area_raw = Inl ValueError"
  by (cases "mun_frame mun_uf") (simp_all add: build_panel_def normalize_no_V)

lemma view_result_Inl: "view_result res = Inl e \<Longrightarrow> res = Inl e"
  by (cases res) (simp_all add: view_result_def)

lemma series_div_rows:
  assumes "distinct (map fst (frows f))"
  shows "series_div (getitem f a) (getitem f b) =
         map (\<lambda>(l, r). (l, cell_div (r a) (r b))) (frows f)"
  unfolding series_div_def getitem_def map_map
  by (rule map_cong[OF refl]) (auto simp: map_of_labelled[OF assms])

lemma setitem_rows_same_labels:
  assumes "distinct (map fst (frows f))"
  shows "frows (setitem f c (map (\<lambda>(l, r). (l, g r)) (frows f))) =
         map (\<lambda>(l, r). (l, r(c := g r))) (frows f)"
  unfolding setitem_def Let_def
  by (auto simp: map_of_labelled[OF assms] intro!: map_cong[OF refl])

lemma zip_same_map: "zip (map f xs) (map g xs) = map (\<lambda>x. (f x, g x)) xs"
  by (induction xs) simp_all

lemma derive_rows:
  assumes "distinct (map fst (frows f))"
  shows "frows (derive f) = map (\<lambda>(l, r). (l, derived_row r)) (frows f)"
proof -
  let ?g = "setitem f ''pib_pc'' (series_div (getitem f ''pib'') (getitem f ''pop''))"
  have g: "frows ?g =
           map (\<lambda>(l, r). (l, r(''pib_pc'' := cell_div (r ''pib'') (r ''pop'')))) (frows f)"
    unfolding series_div_rows[OF assms] by (rule setitem_rows_same_labels[OF assms])
  have dg: "distinct (map fst (frows ?g))"
    unfolding g using assms by (simp add: comp_def split_def)
  have w: "where_area (getitem ?g ''area'')
             (series_div (getitem ?g ''pib'') (getitem ?g ''area'')) =
           map (\<lambda>(l, r). if r ''area'' \<noteq> NA \<and> positive (r ''area'')
                           then cell_div (r ''pib'') (r ''area'') else NA) (frows ?g)"
    unfolding series_div_rows[OF dg]
    unfolding where_area_def getitem_def zip_same_map
    by (simp add: split_def)
  have "frows (derive f) =
        map (\<lambda>((l, r), v). (l, r(''pib_km2'' := v)))
            (zip (map id (frows ?g))
                 (map (\<lambda>(l, r). if r ''area'' \<noteq> NA \<and> positive (r ''area'')
                                 then cell_div (r ''pib'') (r ''area'') else NA) (frows ?g)))"
    unfolding derive_def Let_def w setitem_array_def by simp
  also have "\<dots> = map (\<lambda>(l, r). (l, derived_row r)) (frows f)"
    unfolding zip_same_map g
    by (auto simp: split_def comp_def derived_row_def fun_upd_def fun_eq_iff)
  finally show ?thesis .
qed

lemma map_snd_enumerate: "map snd (enumerate n xs) = xs"
  by (induction xs arbitrary: n) simp_all

lemma frows_merge:
  "map snd (frows (merge hw L R on sfx)) =
     merge_rows hw (merge_names (fcolumns L) (fcolumns R) on sfx) on
       (map snd (frows L)) (map snd (frows R))"
  by (simp add: merge_def Let_def map_snd_enumerate)

lemma distinct_merge: "distinct (map fst (frows (merge hw L R on sfx)))"
  by (simp add: merge_def Let_def)

lemma fcolumns_merge:
  "fcolumns (merge hw L R on sfx) = map fst (merge_names (fcolumns L) (fcolumns R) on sfx)"
  by (simp add: merge_def Let_def)

lemma merge_rows_iff:
  "x \<in> set (merge_rows hw names on ls rs) \<longleftrightarrow>
     (\<exists>l \<in> set ls. (partners on rs l = [] \<and> hw = LeftJ \<and> x = joined_row names l None) \<or>
                    (\<exists>r \<in> set (partners on rs l). x = joined_row names l (Some r)))"
  by (auto simp: merge_rows_def split: if_splits)

lemma names1:
  "merge_names [''code_muni'', ''municipio'', ''ano'', ''pib'']
               [''code_muni'', ''municipio'', ''ano'', ''pop''] [''code_muni'', ''ano'']
               ('''', ''_pop'') =
   [(''code_muni'', True, ''code_muni''), (''municipio'', True, ''municipio''),
    (''ano'', True, ''ano''), (''pib'', True, ''pib''),
    (''municipio_pop'', False, ''municipio''), (''pop'', False, ''pop'')]"
  by (simp add: merge_names_def)

lemma names2:
  "merge_names [''code_muni'', ''municipio'', ''ano'', ''pib'', ''municipio_pop'', ''pop'']
               [''code_muni'', ''municipio''] [''code_muni''] (''_x'', ''_y'') =
   [(''code_muni'', True, ''code_muni''), (''municipio_x'', True, ''municipio''),
    (''ano'', True, ''ano''), (''pib'', True, ''pib''),
    (''municipio_pop'', True, ''municipio_pop''), (''pop'', True, ''pop''),
    (''municipio_y'', False, ''municipio'')]"
  by (simp add: merge_names_def)

lemma names3:
  "merge_names [''code_muni'', ''municipio_x'', ''ano'', ''pib'', ''municipio_pop'', ''pop'',
                ''municipio_y'']
               [''code_muni'', ''area''] [''code_muni''] (''_x'', ''_y'') =
   [(''code_muni'', True, ''code_muni''), (''municipio_x'', True, ''municipio_x''),
    (''ano'', True, ''ano''), (''pib'', True, ''pib''),
    (''municipio_pop'', True, ''municipio_pop''), (''pop'', True, ''pop''),
    (''municipio_y'', True, ''municipio_y''), (''area'', False, ''area'')]"
  by (simp add: merge_names_def)
lemma rows_of_dropna:
  "rows_of (dropna f cols) = filter (\<lambda>r. list_all (\<lambda>c. r c \<noteq> NA) cols) (rows_of f)"
  by (simp add: rows_of_def dropna_def filter_map comp_def split_def)

lemma keyed_dropna: "rows_of (dropna f [''code_muni'', ''ano'']) = keyed f"
  by (simp add: rows_of_dropna keyed_def)

lemma fcolumns_dropna: "fcolumns (dropna f cols) = fcolumns f"
  by (simp add: dropna_def)

lemma bex_partners:
  "(\<exists>r \<in> set (partners on rs l). Q r) \<longleftrightarrow> (\<exists>r \<in> set rs. (\<forall>k \<in> set on. l k = r k) \<and> Q r)"
  by (auto simp: partners_def list_all_iff)

lemma partners_empty_iff:
  "partners on rs l = [] \<longleftrightarrow> (\<forall>r \<in> set rs. \<not> (\<forall>k \<in> set on. l k = r k))"
  by (auto simp: partners_def filter_empty_conv list_all_iff)

lemma rows_of_merge:
  "rows_of (merge hw L R on sfx) =
     merge_rows hw (merge_names (fcolumns L) (fcolumns R) on sfx) on (rows_of L) (rows_of R)"
  unfolding rows_of_def by (rule frows_merge)

lemma jr1:
  "joined_row
     [(''code_muni'', True, ''code_muni''), (''municipio'', True, ''municipio''),
      (''ano'', True, ''ano''), (''pib'', True, ''pib''),
      (''municipio_pop'', False, ''municipio''), (''pop'', False, ''pop'')] l (Some r) =
   join1 l r"
  by (rule ext) (simp add: joined_row_def join1_def)

lemma jr2:
  "joined_row
     [(''code_muni'', True, ''code_muni''), (''municipio_x'', True, ''municipio''),
      (''ano'', True, ''ano''), (''pib'', True, ''pib''),
      (''municipio_pop'', True, ''municipio_pop''), (''pop'', True, ''pop''),
      (''municipio_y'', False, ''municipio'')] l ro =
   join2 l ro"
  by (rule ext) (simp add: joined_row_def join2_def)

lemma jr3:
  "joined_row
     [(''code_muni'', True, ''code_muni''), (''municipio_x'', True, ''municipio_x''),
      (''ano'', True, ''ano''), (''pib'', True, ''pib''),
      (''municipio_pop'', True, ''municipio_pop''), (''pop'', True, ''pop''),
      (''municipio_y'', True, ''municipio_y''), (''area'', False, ''area'')] l ro =
   join3 l ro"
  by (rule ext) (simp add: joined_row_def join3_def)

lemma tidy_columns: "tidy vn T \<Longrightarrow> fcolumns T = [''code_muni'', ''municipio'', ''ano'', vn]"
  by (simp add: tidy_def)
lemma fcolumns_merge_pib_pop:
  assumes "tidy ''pib'' pib" "tidy ''pop'' pop"
  shows "fcolumns (merge_pib_pop pib pop) =
         [''code_muni'', ''municipio'', ''ano'', ''pib'', ''municipio_pop'', ''pop'']"
proof -
  have "fcolumns (merge_pib_pop pib pop) =
        map fst (merge_names [''code_muni'', ''municipio'', ''ano'', ''pib'']
               [''code_muni'', ''municipio'', ''ano'', ''pop''] [''code_muni'', ''ano'']
               ('''', ''_pop''))"
    by (simp only: merge_pib_pop_def fcolumns_merge fcolumns_dropna
        tidy_columns[OF assms(1)] tidy_columns[OF assms(2)])
  then show ?thesis by (simp only: names1 list.map fst_conv)
qed

lemma rows_of_merge_pib_pop:
  assumes "tidy ''pib'' pib" "tidy ''pop'' pop"
  shows "x \<in> set (rows_of (merge_pib_pop pib pop)) \<longleftrightarrow>
         (\<exists>l \<in> set (keyed pib). \<exists>r \<in> set (keyed pop).
            (l ''code_muni'' = r ''code_muni'' \<and> l ''ano'' = r ''ano'') \<and> x = join1 l r)"
proof -
  have "rows_of (merge_pib_pop pib pop) =
        merge_rows Inner
          [(''code_muni'', True, ''code_muni''), (''municipio'', True, ''municipio''),
           (''ano'', True, ''ano''), (''pib'', True, ''pib''),
           (''municipio_pop'', False, ''municipio''), (''pop'', False, ''pop'')]
          [''code_muni'', ''ano''] (keyed pib) (keyed pop)"
    by (simp only: merge_pib_pop_def rows_of_merge fcolumns_dropna keyed_dropna
        tidy_columns[OF assms(1)] tidy_columns[OF assms(2)] names1)
  then show ?thesis
    by (simp only: merge_rows_iff bex_partners jr1 how.distinct simp_thms list.set
        ball_simps insert_iff empty_iff bex_simps)
qed
lemma left_merge_iff:
  "x \<in> set (merge_rows LeftJ names [k] ls rs) \<longleftrightarrow>
     (\<exists>l \<in> set ls. \<exists>ro. found k rs (l k) ro \<and> x = joined_row names l ro)"
  by (auto simp: merge_rows_iff partners_empty_iff bex_partners found_def list_all_iff
      list_ex_iff)

lemma rows_of_select: "rows_of (select f cols) = rows_of f"
  by (simp add: rows_of_def select_def)

lemma fcolumns_select: "fcolumns (select f cols) = cols"
  by (simp add: select_def)

lemma rows_of_mun_table: "rows_of (mun_table m) = map (\<lambda>(i, n). mun_row i n) m"
  by (simp add: rows_of_def mun_table_def map_snd_enumerate mun_row_def)

lemma fcolumns_area_agg: "fcolumns (area_agg area) = [''code_muni'', ''area'']"
  by (simp add: area_agg_def groupby_max_def)

lemma rows_of_enrich:
  assumes "tidy ''pib'' pib" "tidy ''pop'' pop"
  shows "rows_of (enrich (mun_table m) pib pop area) =
         merge_rows LeftJ
           [(''code_muni'', True, ''code_muni''), (''municipio_x'', True, ''municipio_x''),
            (''ano'', True, ''ano''), (''pib'', True, ''pib''),
            (''municipio_pop'', True, ''municipio_pop''), (''pop'', True, ''pop''),
            (''municipio_y'', True, ''municipio_y''), (''area'', False, ''area'')]
           [''code_muni'']
           (merge_rows LeftJ
              [(''code_muni'', True, ''code_muni''), (''municipio_x'', True, ''municipio''),
               (''ano'', True, ''ano''), (''pib'', True, ''pib''),
               (''municipio_pop'', True, ''municipio_pop''), (''pop'', True, ''pop''),
               (''municipio_y'', False, ''municipio'')]
              [''code_muni''] (rows_of (merge_pib_pop pib pop))
              (map (\<lambda>(i, n). mun_row i n) m))
           (rows_of (area_agg area))"
  by (simp only: enrich_def Let_def rows_of_merge fcolumns_merge fcolumns_select
      rows_of_select rows_of_mun_table fcolumns_area_agg fcolumns_merge_pib_pop[OF assms]
      names2 names3 list.map fst_conv)

lemma fcolumns_enrich:
  assumes "tidy ''pib'' pib" "tidy ''pop'' pop"
  shows "fcolumns (enrich (mun_table m) pib pop area) =
         [''code_muni'', ''municipio_x'', ''ano'', ''pib'', ''municipio_pop'', ''pop'',
          ''municipio_y'', ''area'']"
  by (simp only: enrich_def Let_def fcolumns_merge fcolumns_select
      fcolumns_area_agg fcolumns_merge_pib_pop[OF assms] names2 names3 list.map fst_conv)

lemma join1_key: "join1 l r ''code_muni'' = l ''code_muni''"
  by (simp add: join1_def)

lemma join2_key: "join2 p ro ''code_muni'' = p ''code_muni''"
  by (simp add: join2_def)

lemma enrich_iff:
  assumes "tidy ''pib'' pib" "tidy ''pop'' pop"
  shows "x \<in> set (rows_of (enrich (mun_table m) pib pop area)) \<longleftrightarrow>
         (\<exists>l \<in> set (keyed pib). \<exists>r \<in> set (keyed pop). \<exists>ro2 ro3.
            same_key l r \<and>
            found ''code_muni'' (map (\<lambda>(i, n). mun_row i n) m) (l ''code_muni'') ro2 \<and>
            found ''code_muni'' (rows_of (area_agg area)) (l ''code_muni'') ro3 \<and>
            x = join3 (join2 (join1 l r) ro2) ro3)"
  (is "?L \<longleftrightarrow> ?R")
proof
  assume ?L
  then obtain p2 ro3 where
    p2: "p2 \<in> set (merge_rows LeftJ
              [(''code_muni'', True, ''code_muni''), (''municipio_x'', True, ''municipio''),
               (''ano'', True, ''ano''), (''pib'', True, ''pib''),
               (''municipio_pop'', True, ''municipio_pop''), (''pop'', True, ''pop''),
               (''municipio_y'', False, ''municipio'')]
              [''code_muni''] (rows_of (merge_pib_pop pib pop))
              (map (\<lambda>(i, n). mun_row i n) m))"
    and f3: "found ''code_muni'' (rows_of (area_agg area)) (p2 ''code_muni'') ro3"
    and x: "x = join3 p2 ro3"
    unfolding rows_of_enrich[OF assms] left_merge_iff[where ls = "merge_rows _ _ _ _ _"] jr3
    by blast
  from p2 obtain p1 ro2 where
    p1: "p1 \<in> set (rows_of (merge_pib_pop pib pop))"
    and f2: "found ''code_muni'' (map (\<lambda>(i, n). mun_row i n) m) (p1 ''code_muni'') ro2"
    and p2e: "p2 = join2 p1 ro2"
    unfolding left_merge_iff jr2 by blast
  from p1 obtain l r where
    l: "l \<in> set (keyed pib)" and r: "r \<in> set (keyed pop)"
    and k: "l ''code_muni'' = r ''code_muni'' \<and> l ''ano'' = r ''ano''" and p1e: "p1 = join1 l r"
    unfolding rows_of_merge_pib_pop[OF assms] by blast
  from f2 have f2': "found ''code_muni'' (map (\<lambda>(i, n). mun_row i n) m) (l ''code_muni'') ro2"
    by (simp only: p1e join1_key)
  from f3 have f3': "found ''code_muni'' (rows_of (area_agg area)) (l ''code_muni'') ro3"
    by (simp only: p2e p1e join1_key join2_key)
  from k have sk: "same_key l r" by (simp only: same_key_def)
  have "x = join3 (join2 (join1 l r) ro2) ro3" by (simp only: x p2e p1e)
  with l r sk f2' f3' show ?R by blast
next
  assume ?R
  then obtain l r ro2 ro3 where
    l: "l \<in> set (keyed pib)" and r: "r \<in> set (keyed pop)" and sk: "same_key l r"
    and f2: "found ''code_muni'' (map (\<lambda>(i, n). mun_row i n) m) (l ''code_muni'') ro2"
    and f3: "found ''code_muni'' (rows_of (area_agg area)) (l ''code_muni'') ro3"
    and x: "x = join3 (join2 (join1 l r) ro2) ro3"
    by blast
  from sk have k: "l ''code_muni'' = r ''code_muni'' \<and> l ''ano'' = r ''ano''"
    by (simp only: same_key_def)
  have p1: "join1 l r \<in> set (rows_of (merge_pib_pop pib pop))"
    unfolding rows_of_merge_pib_pop[OF assms] using l r k by blast
  from f2 have "found ''code_muni'' (map (\<lambda>(i, n). mun_row i n) m) (join1 l r ''code_muni'') ro2"
    by (simp only: join1_key)
  with p1 have p2: "join2 (join1 l r) ro2 \<in> set (merge_rows LeftJ
              [(''code_muni'', True, ''code_muni''), (''municipio_x'', True, ''municipio''),
               (''ano'', True, ''ano''), (''pib'', True, ''pib''),
               (''municipio_pop'', True, ''municipio_pop''), (''pop'', True, ''pop''),
               (''municipio_y'', False, ''municipio'')]
              [''code_muni''] (rows_of (merge_pib_pop pib pop))
              (map (\<lambda>(i, n). mun_row i n) m))"
    unfolding left_merge_iff jr2 by blast
  from f3 have "found ''code_muni'' (rows_of (area_agg area))
                  (join2 (join1 l r) ro2 ''code_muni'') ro3"
    by (simp only: join1_key join2_key)
  with p2 show ?L
    unfolding rows_of_enrich[OF assms] left_merge_iff[where ls = "merge_rows _ _ _ _ _"] jr3 x
    by blast
qed
lemma map_insort_key:
  "map f (insort_key (\<lambda>x. g (f x)) a xs) = insort_key g (f a) (map f xs)"
  by (induction xs) simp_all

lemma map_sort_key: "map f (sort_key (\<lambda>x. g (f x)) xs) = sort_key g (map f xs)"
  by (induction xs) (simp_all add: map_insort_key)

lemma rows_of_sort_values: "rows_of (sort_values f) = sort_key row_key (rows_of f)"
  unfolding rows_of_def sort_values_def
  by (simp add: split_def map_sort_key[of snd row_key])

lemma rows_of_reset_index: "rows_of (reset_index f) = rows_of f"
  by (simp add: rows_of_def reset_index_def map_snd_enumerate)

lemma rows_of_derive:
  "distinct (map fst (frows f)) \<Longrightarrow> rows_of (derive f) = map derived_row (rows_of f)"
  by (simp add: rows_of_def derive_rows comp_def split_def)

lemma distinct_enrich: "distinct (map fst (frows (enrich mun pib pop area)))"
  by (simp add: enrich_def Let_def distinct_merge)

lemma rows_of_assemble:
  "rows_of (assemble mun pib pop area) =
     sort_key row_key (map derived_row (rows_of (enrich mun pib pop area)))"
  by (simp add: assemble_def Let_def rows_of_reset_index rows_of_sort_values
      rows_of_derive[OF distinct_enrich])

lemma fcolumns_derive:
  "fcolumns (derive f) =
     (let cs = (if ''pib_pc'' \<in> set (fcolumns f) then fcolumns f else fcolumns f @ [''pib_pc''])
      in if ''pib_km2'' \<in> set cs then cs else cs @ [''pib_km2''])"
  by (simp add: derive_def Let_def setitem_def setitem_array_def)

lemma fcolumns_assemble:
  assumes "tidy ''pib'' pib" "tidy ''pop'' pop"
  shows "fcolumns (assemble (mun_table m) pib pop area) =
         [''code_muni'', ''municipio_x'', ''ano'', ''pib'', ''municipio_pop'', ''pop'',
          ''municipio_y'', ''area'', ''pib_pc'', ''pib_km2'']"
  by (simp add: assemble_def Let_def reset_index_def sort_values_def fcolumns_derive
      fcolumns_enrich[OF assms])

lemma mun_frame_Inr: "mun_frame mun_uf = Inr mun \<Longrightarrow> mun = mun_table mun_uf"
  by (auto simp: mun_frame_def split: if_splits)

lemma build_panel_Inr:
  assumes "build_panel num mun_uf pib_raw pop_raw area_raw = Inr P"
  obtains pib pop area where
    "normalize_sidra_table num pib_raw ''pib'' False = Inr pib"
    "normalize_sidra_table num pop_raw ''pop'' False = Inr pop"
    "normalize_sidra_table num area_raw ''area'' False = Inr area"
    "P = assemble (mun_table mun_uf) pib pop area"
    "tidy ''pib'' pib" "tidy ''pop'' pop" "tidy ''area'' area"
proof -
  from assms obtain mun pib pop area where
    m: "mun_frame mun_uf = Inr mun" and
    n: "normalize_sidra_table num pib_raw ''pib'' False = Inr pib"
       "normalize_sidra_table num pop_raw ''pop'' False = Inr pop"
       "normalize_sidra_table num area_raw ''area'' False = Inr area"
    and P: "P = assemble mun pib pop area"
    unfolding build_panel_def by (auto split: sum.splits)
  have t: "tidy ''pib'' pib" "tidy ''pop'' pop" "tidy ''area'' area"
    using n by (auto intro: normalize_tidy)
  from P mun_frame_Inr[OF m] have "P = assemble (mun_table mun_uf) pib pop area" by simp
  with n t that show ?thesis by blast
qed

lemma found_exists: "\<exists>ro. found k rs c ro"
proof (cases "list_all (\<lambda>q. c \<noteq> q k) rs")
  case True
  then show ?thesis unfolding found_def by blast
next
  case False
  then obtain q where "q \<in> set rs" "c = q k" by (auto simp: list_all_iff)
  then have "list_ex (\<lambda>q'. c = q' k \<and> Some q = Some q') rs"
    by (auto simp: list_ex_iff)
  then show ?thesis unfolding found_def by blast
qed

lemma keyed_iff:
  "l \<in> set (keyed f) \<longleftrightarrow> l \<in> set (rows_of f) \<and> l ''code_muni'' \<noteq> NA \<and> l ''ano'' \<noteq> NA"
  by (auto simp: keyed_def)

lemma tidy_row:
  assumes "tidy vn T" "l \<in> set (rows_of T)"
  shows "int_or_na (l ''code_muni'')" "int_or_na (l ''ano'')" "is_flt (l vn)"
  using assms unfolding tidy_def rows_of_def by force+

lemma int_or_na_cases: "int_or_na c \<Longrightarrow> c \<noteq> NA \<Longrightarrow> \<exists>i. c = IntC i"
  by (cases c) (simp_all add: int_or_na_def)

lemma is_flt_cases: "is_flt c \<Longrightarrow> \<exists>v. c = FltC v"
  by (cases c) (simp_all add: is_flt_def)

lemma keyed_typed:
  assumes "tidy vn T" "l \<in> set (keyed T)"
  shows "\<exists>c a v. l ''code_muni'' = IntC c \<and> l ''ano'' = IntC a \<and> l vn = FltC v"
proof -
  from assms(2) have r: "l \<in> set (rows_of T)" and n: "l ''code_muni'' \<noteq> NA" "l ''ano'' \<noteq> NA"
    by (simp_all add: keyed_iff)
  from tidy_row[OF assms(1) r] n show ?thesis
    by (meson int_or_na_cases is_flt_cases)
qed

lemma set_map_filter_iff:
  "y \<in> set (List.map_filter g xs) \<longleftrightarrow> (\<exists>x \<in> set xs. g x = Some y)"
  by (induction xs) (auto split: option.splits)

lemma group_keys_iff:
  "i \<in> set (group_keys f k) \<longleftrightarrow> (\<exists>r \<in> set (rows_of f). r k = IntC i)"
proof
  assume "i \<in> set (group_keys f k)"
  then obtain x where x: "x \<in> set (frows f)"
    and s: "(case x of (l, r) \<Rightarrow> case r k of IntC i \<Rightarrow> Some i | _ \<Rightarrow> None) = Some i"
    by (auto simp: group_keys_def set_map_filter_iff)
  from s have "snd x k = IntC i" by (cases x; cases "snd x k") simp_all
  with x show "\<exists>r \<in> set (rows_of f). r k = IntC i" by (auto simp: rows_of_def)
next
  assume "\<exists>r \<in> set (rows_of f). r k = IntC i"
  then obtain l r where "(l, r) \<in> set (frows f)" "r k = IntC i" by (auto simp: rows_of_def)
  then have "\<exists>x \<in> set (frows f).
             (case x of (l, r) \<Rightarrow> case r k of IntC i \<Rightarrow> Some i | _ \<Rightarrow> None) = Some i"
    by (intro bexI[of _ "(l, r)"]) simp_all
  then show "i \<in> set (group_keys f k)" by (simp add: group_keys_def set_map_filter_iff)
qed

lemma distinct_group_keys: "distinct (group_keys f k)"
  by (simp add: group_keys_def)

lemma group_values_iff:
  "x \<in> set (group_values f k v i) \<longleftrightarrow> (\<exists>r \<in> set (rows_of f). r k = IntC i \<and> r v = FltC x)"
proof
  assume "x \<in> set (group_values f k v i)"
  then obtain y where y: "y \<in> set (frows f)"
    and s: "(case y of (l, r) \<Rightarrow> if r k = IntC i
               then (case r v of FltC x \<Rightarrow> Some x | _ \<Rightarrow> None) else None) = Some x"
    by (auto simp: group_values_def set_map_filter_iff)
  from s have "snd y k = IntC i \<and> snd y v = FltC x"
    by (cases y; cases "snd y v") (simp_all split: if_splits)
  with y show "\<exists>r \<in> set (rows_of f). r k = IntC i \<and> r v = FltC x"
    by (auto simp: rows_of_def)
next
  assume "\<exists>r \<in> set (rows_of f). r k = IntC i \<and> r v = FltC x"
  then obtain l r where "(l, r) \<in> set (frows f)" "r k = IntC i" "r v = FltC x"
    by (auto simp: rows_of_def)
  then have "\<exists>y \<in> set (frows f).
             (case y of (l, r) \<Rightarrow> if r k = IntC i
               then (case r v of FltC x \<Rightarrow> Some x | _ \<Rightarrow> None) else None) = Some x"
    by (intro bexI[of _ "(l, r)"]) simp_all
  then show "x \<in> set (group_values f k v i)" by (simp add: group_values_def set_map_filter_iff)
qed

lemma max_cell_greatest:
  assumes "xs \<noteq> []"
  shows "\<exists>m. max_cell xs = FltC m \<and> m \<in> set xs \<and> (\<forall>v \<in> set xs. v \<le> m)"
proof -
  from assms obtain x t where xs: "xs = x # t" by (cases xs) auto
  have "fold max t x = Max (set (x # t))" by (rule Max.set_eq_fold[symmetric])
  moreover have "Max (set (x # t)) \<in> set (x # t)" by (rule Max_in) simp_all
  moreover have "\<forall>v \<in> set (x # t). v \<le> Max (set (x # t))" by simp
  ultimately show ?thesis unfolding xs max_cell_def by simp
qed

lemma rows_of_groupby_max:
  "rows_of (groupby_max f k v) =
     map (\<lambda>i. (\<lambda>c. NA)(k := IntC i, v := max_cell (group_values f k v i))) (group_keys f k)"
  by (simp add: rows_of_def groupby_max_def map_snd_enumerate)

lemma area_agg_rows:
  "rows_of (area_agg A) =
     map (\<lambda>i. (\<lambda>c. NA)(''code_muni'' := IntC i,
                        ''area'' := max_cell (group_values (dropna A [''code_muni''])
                                                ''code_muni'' ''area'' i)))
         (group_keys (dropna A [''code_muni'']) ''code_muni'')"
  by (simp add: area_agg_def rows_of_groupby_max)

lemma area_agg_codes: "map (\<lambda>g. g ''code_muni'') (rows_of (area_agg A)) =
    map IntC (group_keys (dropna A [''code_muni'']) ''code_muni'')"
  by (simp add: area_agg_rows comp_def)

lemma dropna_code_iff:
  "(\<exists>r \<in> set (rows_of (dropna A [''code_muni''])). r ''code_muni'' = IntC i \<and> Q r) \<longleftrightarrow>
   (\<exists>r \<in> set (rows_of A). r ''code_muni'' = IntC i \<and> Q r)"
  by (auto simp: rows_of_dropna)

lemma area_agg_distinct: "distinct (map (\<lambda>g. g ''code_muni'') (rows_of (area_agg A)))"
  unfolding area_agg_codes by (simp add: distinct_map distinct_group_keys inj_on_def)

lemma area_agg_sorted:
  "sorted (group_keys (dropna A [''code_muni'']) ''code_muni'')"
  by (simp add: group_keys_def)

lemma area_agg_code_iff:
  "(\<exists>g \<in> set (rows_of (area_agg A)). g ''code_muni'' = IntC i) \<longleftrightarrow>
   (\<exists>r \<in> set (rows_of A). r ''code_muni'' = IntC i)"
proof -
  have "(\<exists>g \<in> set (rows_of (area_agg A)). g ''code_muni'' = IntC i) \<longleftrightarrow>
        IntC i \<in> set (map (\<lambda>g. g ''code_muni'') (rows_of (area_agg A)))"
    by (simp add: image_iff) metis
  also have "\<dots> \<longleftrightarrow> i \<in> set (group_keys (dropna A [''code_muni'']) ''code_muni'')"
    unfolding area_agg_codes by auto
  also have "\<dots> \<longleftrightarrow> (\<exists>r \<in> set (rows_of A). r ''code_muni'' = IntC i)"
    using dropna_code_iff[of A i "\<lambda>r. True"] by (simp add: group_keys_iff)
  finally show ?thesis .
qed

lemma area_agg_row:
  assumes t: "tidy ''area'' A" and g: "g \<in> set (rows_of (area_agg A))"
  shows "\<exists>i m. g ''code_muni'' = IntC i \<and> g ''area'' = FltC m \<and>
           (\<exists>r \<in> set (rows_of A). r ''code_muni'' = IntC i \<and> r ''area'' = FltC m) \<and>
           (\<forall>r \<in> set (rows_of A). \<forall>v. r ''code_muni'' = IntC i \<and> r ''area'' = FltC v \<longrightarrow> v \<le> m)"
proof -
  let ?D = "dropna A [''code_muni'']"
  from g obtain i where i: "i \<in> set (group_keys ?D ''code_muni'')"
    and gi: "g = (\<lambda>c. NA)(''code_muni'' := IntC i,
                         ''area'' := max_cell (group_values ?D ''code_muni'' ''area'' i))"
    unfolding area_agg_rows by auto
  from i obtain r where r: "r \<in> set (rows_of A)" and rc: "r ''code_muni'' = IntC i"
    using dropna_code_iff[of A i "\<lambda>r. True"] by (auto simp: group_keys_iff)
  from tidy_row(3)[OF t r] obtain v0 where v0: "r ''area'' = FltC v0"
    by (auto dest: is_flt_cases)
  have gv: "\<And>x. x \<in> set (group_values ?D ''code_muni'' ''area'' i) \<longleftrightarrow>
              (\<exists>r \<in> set (rows_of A). r ''code_muni'' = IntC i \<and> r ''area'' = FltC x)"
    unfolding group_values_iff by (rule dropna_code_iff)
  from r rc v0 have "v0 \<in> set (group_values ?D ''code_muni'' ''area'' i)"
    unfolding gv by blast
  then have "group_values ?D ''code_muni'' ''area'' i \<noteq> []" by auto
  from max_cell_greatest[OF this] obtain m where
    m: "max_cell (group_values ?D ''code_muni'' ''area'' i) = FltC m"
       "m \<in> set (group_values ?D ''code_muni'' ''area'' i)"
       "\<forall>v \<in> set (group_values ?D ''code_muni'' ''area'' i). v \<le> m"
    by blast
  have c1: "g ''code_muni'' = IntC i" unfolding gi by simp
  have c2: "g ''area'' = FltC m" unfolding gi using m(1) by simp
  from m(2) have c3: "\<exists>r \<in> set (rows_of A). r ''code_muni'' = IntC i \<and> r ''area'' = FltC m"
    unfolding gv .
  have c4: "\<forall>r \<in> set (rows_of A). \<forall>v. r ''code_muni'' = IntC i \<and> r ''area'' = FltC v \<longrightarrow> v \<le> m"
  proof (intro ballI allI impI)
    fix r v assume "r \<in> set (rows_of A)" "r ''code_muni'' = IntC i \<and> r ''area'' = FltC v"
    then have "v \<in> set (group_values ?D ''code_muni'' ''area'' i)" unfolding gv by blast
    with m(3) show "v \<le> m" by blast
  qed
  from c1 c2 c3 c4 show ?thesis by blast
qed
lemma panel_row_cells:
  assumes "x = derived_row (join3 (join2 (join1 l r) ro2) ro3)"
  shows "x ''code_muni'' = l ''code_muni''" "x ''ano'' = l ''ano''" "x ''pib'' = l ''pib''"
    "x ''pop'' = r ''pop''" "x ''municipio_x'' = l ''municipio''"
    "x ''municipio_pop'' = r ''municipio''"
    "x ''municipio_y'' = (case ro2 of Some q \<Rightarrow> q ''municipio'' | None \<Rightarrow> NA)"
    "x ''area'' = (case ro3 of Some g \<Rightarrow> g ''area'' | None \<Rightarrow> NA)"
    "x ''pib_pc'' = cell_div (l ''pib'') (r ''pop'')"
    "x ''pib_km2'' = (if x ''area'' \<noteq> NA \<and> positive (x ''area'')
                      then cell_div (l ''pib'') (x ''area'') else NA)"
  unfolding assms by (simp_all add: derived_row_def join3_def join2_def join1_def)

lemma image_bex4:
  "(\<exists>y. (\<exists>l \<in> A. \<exists>r \<in> B. \<exists>p q. R l r p q \<and> y = J l r p q) \<and> x = d y) \<longleftrightarrow>
   (\<exists>l \<in> A. \<exists>r \<in> B. \<exists>p q. R l r p q \<and> x = d (J l r p q))"
  by blast

lemma build_panel_rows:
  assumes b: "build_panel num mun_uf pib_raw pop_raw area_raw = Inr P"
  obtains pib pop area where
    "normalize_sidra_table num pib_raw ''pib'' False = Inr pib"
    "normalize_sidra_table num pop_raw ''pop'' False = Inr pop"
    "normalize_sidra_table num area_raw ''area'' False = Inr area"
    "tidy ''pib'' pib" "tidy ''pop'' pop" "tidy ''area'' area"
    "rows_of P = sort_key row_key
                   (map derived_row (rows_of (enrich (mun_table mun_uf) pib pop area)))"
    "\<And>x. x \<in> set (rows_of P) \<longleftrightarrow>
       (\<exists>l \<in> set (keyed pib). \<exists>r \<in> set (keyed pop). \<exists>ro2 ro3.
          (same_key l r \<and>
           found ''code_muni'' (map (\<lambda>(i, n). mun_row i n) mun_uf) (l ''code_muni'') ro2 \<and>
           found ''code_muni'' (rows_of (area_agg area)) (l ''code_muni'') ro3) \<and>
          x = derived_row (join3 (join2 (join1 l r) ro2) ro3))"
proof -
  from build_panel_Inr[OF b] obtain pib pop area where
    n: "normalize_sidra_table num pib_raw ''pib'' False = Inr pib"
       "normalize_sidra_table num pop_raw ''pop'' False = Inr pop"
       "normalize_sidra_table num area_raw ''area'' False = Inr area"
    and P: "P = assemble (mun_table mun_uf) pib pop area"
    and t: "tidy ''pib'' pib" "tidy ''pop'' pop" "tidy ''area'' area"
    by blast
  let ?E = "enrich (mun_table mun_uf) pib pop area"
  have r: "rows_of P = sort_key row_key (map derived_row (rows_of ?E))"
    unfolding P by (rule rows_of_assemble)
  have m: "x \<in> set (rows_of P) \<longleftrightarrow>
       (\<exists>l \<in> set (keyed pib). \<exists>r \<in> set (keyed pop). \<exists>ro2 ro3.
          (same_key l r \<and>
           found ''code_muni'' (map (\<lambda>(i, n). mun_row i n) mun_uf) (l ''code_muni'') ro2 \<and>
           found ''code_muni'' (rows_of (area_agg area)) (l ''code_muni'') ro3) \<and>
          x = derived_row (join3 (join2 (join1 l r) ro2) ro3))" for x
  proof -
    have "x \<in> set (rows_of P) \<longleftrightarrow> (\<exists>y. y \<in> set (rows_of ?E) \<and> x = derived_row y)"
      unfolding r by (auto simp: image_iff)
    also have "\<dots> \<longleftrightarrow>
       (\<exists>y. (\<exists>l \<in> set (keyed pib). \<exists>r \<in> set (keyed pop). \<exists>ro2 ro3.
          (same_key l r \<and>
           found ''code_muni'' (map (\<lambda>(i, n). mun_row i n) mun_uf) (l ''code_muni'') ro2 \<and>
           found ''code_muni'' (rows_of (area_agg area)) (l ''code_muni'') ro3) \<and>
          y = join3 (join2 (join1 l r) ro2) ro3) \<and> x = derived_row y)"
      unfolding enrich_iff[OF t(1) t(2)] by (simp only: conj_assoc)
    also have "\<dots> \<longleftrightarrow>
       (\<exists>l \<in> set (keyed pib). \<exists>r \<in> set (keyed pop). \<exists>ro2 ro3.
          (same_key l r \<and>
           found ''code_muni'' (map (\<lambda>(i, n). mun_row i n) mun_uf) (l ''code_muni'') ro2 \<and>
           found ''code_muni'' (rows_of (area_agg area)) (l ''code_muni'') ro3) \<and>
          x = derived_row (join3 (join2 (join1 l r) ro2) ro3))"
      by (rule image_bex4)
    finally show ?thesis .
  qed
  from n t r m that show ?thesis by blast
qed

lemma found_cases:
  assumes "found k rs c ro"
  shows "(ro = None \<and> (\<forall>g \<in> set rs. c \<noteq> g k)) \<or> (\<exists>g \<in> set rs. c = g k \<and> ro = Some g)"
  using assms unfolding found_def list_all_iff list_ex_iff .

lemma bex4E:
  assumes "\<exists>l \<in> A. \<exists>r \<in> B. \<exists>p q. (S l r \<and> F l p \<and> G l q) \<and> x = J l r p q"
  obtains l r p q where "l \<in> A" "r \<in> B" "S l r" "F l p" "G l q" "x = J l r p q"
  using assms by blast

section \<open>The claims about the normaliser\<close>

text \<open>
  C7. A raw table without a column named exactly \<open>V\<close> makes \<open>normalize_sidra_table\<close> raise the
  missing-value-column error (the \<open>ValueError\<close> of line 114), whatever its other columns,
  the indicator name and the extra-dimension flag are. When one of the three raw tables of
  \<open>build_panel\<close> lacks \<open>V\<close>, \<open>build_panel\<close> ends with an error and returns no panel; when
  the reference is accepted (lines 186-188 do not raise) and the value table lacks \<open>V\<close>,
  the error is this \<open>ValueError\<close>.
\<close>

theorem missing_value_column_is_fatal:
  "(''V'' \<notin> set (columns t) \<longrightarrow> normalize_sidra_table num t vn keep = Inl ValueError) \<and>
   (''V'' \<notin> set (columns pib_raw) \<or> ''V'' \<notin> set (columns pop_raw) \<or>
    ''V'' \<notin> set (columns area_raw) \<longrightarrow>
      isl (build_panel num mun_uf pib_raw pop_raw area_raw)) \<and>
   (\<not> isl (mun_frame mun_uf) \<and> ''V'' \<notin> set (columns pib_raw) \<longrightarrow>
      build_panel num mun_uf pib_raw pop_raw area_raw = Inl ValueError)"
proof (intro conjI impI)
  assume "''V'' \<notin> set (columns t)"
  then show "normalize_sidra_table num t vn keep = Inl ValueError"
    by (rule normalize_no_V)
next
  assume "''V'' \<notin> set (columns pib_raw) \<or> ''V'' \<notin> set (columns pop_raw) \<or>
          ''V'' \<notin> set (columns area_raw)"
  then show "isl (build_panel num mun_uf pib_raw pop_raw area_raw)"
    by (rule build_panel_no_V)
next
  assume "\<not> isl (mun_frame mun_uf) \<and> ''V'' \<notin> set (columns pib_raw)"
  then show "build_panel num mun_uf pib_raw pop_raw area_raw = Inl ValueError"
    by (simp add: build_panel_no_V_pib)
qed

theorem missing_value_column_is_fatal_witness:
  "''V'' \<notin> set (columns no_value_table) \<and>
   \<not> isl (mun_frame [(5200050, ''Abadia de Goias'')]) \<and>
   normalize_sidra_table decimal_literal no_value_table ''pib'' True = Inl ValueError \<and>
   isl (build_panel decimal_literal [(5200050, ''Abadia de Goias'')]
          header_table header_table no_value_table) \<and>
   build_panel decimal_literal [(5200050, ''Abadia de Goias'')]
     no_value_table header_table header_table = Inl ValueError"
proof -
  have h: "''V'' \<notin> set (columns no_value_table)"
    by (simp add: no_value_table_def col_code_def col_name_def)
  have m: "\<not> isl (mun_frame [(5200050, ''Abadia de Goias'')])"
    by (simp add: mun_frame_def)
  note th1 = missing_value_column_is_fatal
         [where t = no_value_table and num = decimal_literal and vn = "''pib''" and keep = True]
  from th1[THEN conjunct1, THEN mp, OF h]
  have a: "normalize_sidra_table decimal_literal no_value_table ''pib'' True = Inl ValueError" .
  note th2 = missing_value_column_is_fatal
         [where pib_raw = header_table and pop_raw = header_table and
                area_raw = no_value_table and num = decimal_literal and
                mun_uf = "[(5200050, ''Abadia de Goias'')]"]
  from th2[THEN conjunct2, THEN conjunct1, THEN mp, OF disjI2[OF disjI2[OF h]]]
  have b: "isl (build_panel decimal_literal [(5200050, ''Abadia de Goias'')]
                  header_table header_table no_value_table)" .
  note th3 = missing_value_column_is_fatal
         [where pib_raw = no_value_table and pop_raw = header_table and
                area_raw = header_table and num = decimal_literal and
                mun_uf = "[(5200050, ''Abadia de Goias'')]"]
  from th3[THEN conjunct2, THEN conjunct2, THEN mp, OF conjI[OF m h]]
  have c: "build_panel decimal_literal [(5200050, ''Abadia de Goias'')]
             no_value_table header_table header_table = Inl ValueError" .
  from h m a b c show ?thesis by (intro conjI)
qed

text \<open>
  C8. Every row of the table that \<open>normalize_sidra_table\<close> returns has a non-missing value in
  the indicator column; and a raw table that has the column \<open>V\<close> but whose \<open>V\<close> fails the
  numeric coercion on every row is normalised to a table without rows.
\<close>

theorem normalized_rows_have_a_value:
  "(normalize_sidra_table num t vn keep = Inr T \<longrightarrow> (\<forall>(l, r) \<in> set (frows T). r vn \<noteq> NA)) \<and>
   (''V'' \<in> set (columns t) \<and>
    (\<forall>(l, x) \<in> set (coerce_numeric num (getitem_w (copy_raw t) ''V'')). x = None) \<longrightarrow>
      (\<exists>T. normalize_sidra_table num t vn keep = Inr T \<and> frows T = []))"
proof (intro conjI impI)
  assume "normalize_sidra_table num t vn keep = Inr T"
  then show "\<forall>(l, r) \<in> set (frows T). r vn \<noteq> NA"
    by (rule normalize_value_notna)
next
  assume "''V'' \<in> set (columns t) \<and>
    (\<forall>(l, x) \<in> set (coerce_numeric num (getitem_w (copy_raw t) ''V'')). x = None)"
  then show "\<exists>T. normalize_sidra_table num t vn keep = Inr T \<and> frows T = []"
    using normalize_all_missing[of t num vn keep] by (elim conjE) (rule normalize_all_missing)
qed

theorem normalized_rows_have_a_value_witness:
  "view_result (normalize_sidra_table decimal_literal header_table ''pib'' False) =
     Inr ([''code_muni'', ''municipio'', ''ano'', ''pib''],
          [(1, [IntC 5200050, StrC ''Abadia'', IntC 2020, FltC (Fin (123456 / 100))]),
           (2, [IntC 5200100, StrC ''Abadiania'', IntC 2020, FltC (Fin (125 / 10))])]) \<and>
   list_all (\<lambda>(l, r). r ''pib'' \<noteq> NA)
     (frows (projr (normalize_sidra_table decimal_literal header_table ''pib'' False))) \<and>
   ''V'' \<in> set (columns all_text_table) \<and>
   list_all (\<lambda>(l, x). x = None)
     (coerce_numeric decimal_literal (getitem_w (copy_raw all_text_table) ''V'')) \<and>
   \<not> isl (normalize_sidra_table decimal_literal all_text_table ''pib'' False) \<and>
   frows (projr (normalize_sidra_table decimal_literal all_text_table ''pib'' False)) = []"
proof -
  let ?N = "normalize_sidra_table decimal_literal header_table ''pib'' False"
  let ?M = "normalize_sidra_table decimal_literal all_text_table ''pib'' False"
  have v: "view_result ?N =
           Inr ([''code_muni'', ''municipio'', ''ano'', ''pib''],
                [(1, [IntC 5200050, StrC ''Abadia'', IntC 2020, FltC (Fin (123456 / 100))]),
                 (2, [IntC 5200100, StrC ''Abadiania'', IntC 2020, FltC (Fin (125 / 10))])])"
    by code_simp
  then have n1: "\<not> isl ?N"
    by (cases ?N) (simp_all add: view_result_def)
  from n1 have e: "?N = Inr (projr ?N)" by simp
  note th1 = normalized_rows_have_a_value
         [where num = decimal_literal and t = header_table and vn = "''pib''" and keep = False
            and T = "projr ?N"]
  from th1[THEN conjunct1, THEN mp, OF e]
  have n3: "list_all (\<lambda>(l, r). r ''pib'' \<noteq> NA) (frows (projr ?N))"
    unfolding list_all_iff .
  have h1: "''V'' \<in> set (columns all_text_table)"
    by (simp add: all_text_table_def)
  have h2: "list_all (\<lambda>(l, x). x = None)
              (coerce_numeric decimal_literal (getitem_w (copy_raw all_text_table) ''V''))"
    by code_simp
  note th2 = normalized_rows_have_a_value
         [where num = decimal_literal and t = all_text_table and vn = "''pib''" and keep = False]
  from h2 have h2': "\<forall>(l, x) \<in> set (coerce_numeric decimal_literal
                        (getitem_w (copy_raw all_text_table) ''V'')). x = None"
    unfolding list_all_iff .
  from th2[THEN conjunct2, THEN mp, OF conjI[OF h1 h2']]
  obtain T where "?M = Inr T" "frows T = []"
    by blast
  then have m: "\<not> isl ?M" "frows (projr ?M) = []" by simp_all
  from v n3 h1 h2 m show ?thesis by (intro conjI)
qed

text \<open>
  C2, at an input where the program fails. The table has the column \<open>V\<close>, with a numeric
  value, and a municipality code column whose only cell reads \<open>5200050.5\<close>: \<open>pd.to_numeric\<close>
  parses the cell to a float with a fraction, and the cast of line 121 to \<open>Int64\<close> raises
  \<open>TypeError\<close>; the same happens at line 143 for a year cell that reads \<open>2020.5\<close>.
\<close>

theorem fractional_code_or_year_raises:
  "''V'' \<in> set (columns (one_row ''5200050.5'' ''Abadia'' ''2020'' ''10'')) \<and>
   normalize_sidra_table decimal_literal (one_row ''5200050.5'' ''Abadia'' ''2020'' ''10'')
     ''pib'' False = Inl TypeError \<and>
   normalize_sidra_table decimal_literal (one_row ''5200050'' ''Abadia'' ''2020.5'' ''10'')
     ''pib'' False = Inl TypeError"
proof -
  have "view_result (normalize_sidra_table decimal_literal
          (one_row ''5200050.5'' ''Abadia'' ''2020'' ''10'') ''pib'' False) = Inl TypeError"
    by code_simp
  moreover have "view_result (normalize_sidra_table decimal_literal
          (one_row ''5200050'' ''Abadia'' ''2020.5'' ''10'') ''pib'' False) = Inl TypeError"
    by code_simp
  ultimately show ?thesis
    by (simp add: view_result_Inl one_row_def)
qed

text \<open>
  C6, as stated, at an input where it fails. The coercion rule reads the text \<open>5.208.707\<close> as
  the number 5208707 and the text \<open>2.020\<close> as 2020. In the municipality code column the
  program does not apply the rule: the cell \<open>5.208.707\<close> goes to \<open>pd.to_numeric\<close> as it is
  and becomes a missing code. In the year column the cell \<open>2.020\<close> is parsed as 2.02, and the
  cast to \<open>Int64\<close> raises.
\<close>

theorem code_and_year_are_not_rewritten:
  "coerce_numeric decimal_literal [(0, ''5.208.707''), (1, ''2.020'')] =
     [(0, Some (Fin 5208707)), (1, Some (Fin 2020))] \<and>
   view_result (normalize_sidra_table decimal_literal
      (one_row ''5.208.707'' ''Abadia'' ''2020'' ''10'') ''pib'' False) =
     Inr ([''code_muni'', ''municipio'', ''ano'', ''pib''],
          [(0, [NA, StrC ''Abadia'', IntC 2020, FltC (Fin 10)])]) \<and>
   view_result (normalize_sidra_table decimal_literal
      (one_row ''5200050'' ''Abadia'' ''2.020'' ''10'') ''pib'' False) = Inl TypeError"
proof -
  have "coerce_numeric decimal_literal [(0, ''5.208.707''), (1, ''2.020'')] =
          [(0, Some (Fin 5208707)), (1, Some (Fin 2020))]"
    by code_simp
  moreover have "view_result (normalize_sidra_table decimal_literal
      (one_row ''5.208.707'' ''Abadia'' ''2020'' ''10'') ''pib'' False) =
     Inr ([''code_muni'', ''municipio'', ''ano'', ''pib''],
          [(0, [NA, StrC ''Abadia'', IntC 2020, FltC (Fin 10)])])"
    by code_simp
  moreover have "view_result (normalize_sidra_table decimal_literal
      (one_row ''5200050'' ''Abadia'' ''2.020'' ''10'') ''pib'' False) = Inl TypeError"
    by code_simp
  ultimately show ?thesis by (intro conjI)
qed

text \<open>
  C6, amended. The numeric coercion of \<open>_coerce_numeric\<close> is the rule of the specification
  (on the text of the cell remove every point, turn every comma into a point, parse; text
  that does not parse is missing): \<open>1.234,56\<close> becomes 1234.56, \<open>12,5\<close> becomes 12.5 and
  \<open>abc\<close> is missing. The program applies it to the value column \<open>V\<close> only. In every row of
  the normalised table, whose label is the position of a raw row, the indicator is the
  coercion of the \<open>V\<close> cell of that raw row, while \<open>code_muni\<close> and \<open>ano\<close> are the cells of
  the code column and of the year column of that raw row as \<open>pd.to_numeric\<close> parses them,
  without any rewriting, and cast to \<open>Int64\<close> (missing when no such column is found).
  This is for every indicator name that does not overwrite those columns: a name other
  than \<open>code_muni\<close> and \<open>ano\<close> and, when extra dimensions are kept, not of the shape of an
  extra dimension name.
\<close>

theorem value_column_coercion:
  "coerce_numeric num ser = map (\<lambda>(l, x). (l, coerce_rule num x)) ser \<and>
   coerce_numeric decimal_literal [(0, ''1.234,56''), (1, ''12,5''), (2, ''abc'')] =
     [(0, Some (Fin (123456 / 100))), (1, Some (Fin (125 / 10))), (2, None)] \<and>
   (normalize_sidra_table num t vn keep = Inr T \<and> vn \<noteq> ''code_muni'' \<and> vn \<noteq> ''ano'' \<and>
    (keep \<longrightarrow> \<not> match_dim (CHR ''C'') vn \<and> \<not> match_dim (CHR ''N'') vn) \<longrightarrow>
      (\<forall>(l, r) \<in> set (frows T).
          l < length (rows t) \<and>
          r vn = flt_cell (coerce_rule num ((rows t ! l) ''V'')) \<and>
          r ''code_muni'' =
            (case chosen_code num t of
               Some c \<Rightarrow> int64_cell (flt_cell (num ((rows t ! l) c))) | None \<Rightarrow> NA) \<and>
          r ''ano'' =
            (case chosen_time num t of
               Some c \<Rightarrow> int64_cell (flt_cell (num ((rows t ! l) c))) | None \<Rightarrow> NA)))"
proof (intro conjI impI)
  show "coerce_numeric num ser = map (\<lambda>(l, x). (l, coerce_rule num x)) ser"
    by (rule coerce_numeric_rule)
next
  show "coerce_numeric decimal_literal [(0, ''1.234,56''), (1, ''12,5''), (2, ''abc'')] =
     [(0, Some (Fin (123456 / 100))), (1, Some (Fin (125 / 10))), (2, None)]"
    by code_simp
next
  assume h: "normalize_sidra_table num t vn keep = Inr T \<and> vn \<noteq> ''code_muni'' \<and>
             vn \<noteq> ''ano'' \<and>
             (keep \<longrightarrow> \<not> match_dim (CHR ''C'') vn \<and> \<not> match_dim (CHR ''N'') vn)"
  then have n: "normalize_sidra_table num t vn keep = Inr T"
    and v1: "vn \<noteq> ''code_muni''" and v2: "vn \<noteq> ''ano''"
    and v3: "keep \<longrightarrow> vn \<notin> set (extra_dims (work_df num t))"
    by (auto simp: extra_dims_def)
  show "\<forall>(l, r) \<in> set (frows T).
          l < length (rows t) \<and>
          r vn = flt_cell (coerce_rule num ((rows t ! l) ''V'')) \<and>
          r ''code_muni'' =
            (case chosen_code num t of
               Some c \<Rightarrow> int64_cell (flt_cell (num ((rows t ! l) c))) | None \<Rightarrow> NA) \<and>
          r ''ano'' =
            (case chosen_time num t of
               Some c \<Rightarrow> int64_cell (flt_cell (num ((rows t ! l) c))) | None \<Rightarrow> NA)"
  proof clarify
    fix l r assume lr: "(l, r) \<in> set (frows T)"
    from normalize_cells[OF n v1 v2 v3 lr]
    show "l < length (rows t) \<and>
          r vn = flt_cell (coerce_rule num ((rows t ! l) ''V'')) \<and>
          r ''code_muni'' =
            (case chosen_code num t of
               Some c \<Rightarrow> int64_cell (flt_cell (num ((rows t ! l) c))) | None \<Rightarrow> NA) \<and>
          r ''ano'' =
            (case chosen_time num t of
               Some c \<Rightarrow> int64_cell (flt_cell (num ((rows t ! l) c))) | None \<Rightarrow> NA)"
      by (intro conjI)
  qed
qed

theorem value_column_coercion_witness:
  "\<not> isl (normalize_sidra_table decimal_literal header_table ''pib'' False) \<and>
   chosen_code decimal_literal header_table = Some col_code \<and>
   chosen_time decimal_literal header_table = Some ''Ano'' \<and>
   map (\<lambda>(l, r). (l, r ''code_muni'', r ''ano'', r ''pib''))
       (frows (projr (normalize_sidra_table decimal_literal header_table ''pib'' False))) =
     [(1, IntC 5200050, IntC 2020, FltC (Fin (123456 / 100))),
      (2, IntC 5200100, IntC 2020, FltC (Fin (125 / 10)))] \<and>
   list_all (\<lambda>(l, r). l < length (rows header_table) \<and>
                       r ''pib'' = flt_cell (coerce_rule decimal_literal
                                      ((rows header_table ! l) ''V'')) \<and>
                       r ''code_muni'' =
                         int64_cell (flt_cell (decimal_literal ((rows header_table ! l) col_code))) \<and>
                       r ''ano'' =
                         int64_cell (flt_cell (decimal_literal ((rows header_table ! l) ''Ano''))))
     (frows (projr (normalize_sidra_table decimal_literal header_table ''pib'' False)))"
proof -
  let ?N = "normalize_sidra_table decimal_literal header_table ''pib'' False"
  have v: "view_result ?N =
           Inr ([''code_muni'', ''municipio'', ''ano'', ''pib''],
                [(1, [IntC 5200050, StrC ''Abadia'', IntC 2020, FltC (Fin (123456 / 100))]),
                 (2, [IntC 5200100, StrC ''Abadiania'', IntC 2020, FltC (Fin (125 / 10))])])"
    by code_simp
  then have n1: "\<not> isl ?N"
    by (cases ?N) (simp_all add: view_result_def)
  have cc: "chosen_code decimal_literal header_table = Some col_code"
    by code_simp
  have ct: "chosen_time decimal_literal header_table = Some ''Ano''"
    by code_simp
  from v have n2: "map (\<lambda>(l, r). (l, r ''code_muni'', r ''ano'', r ''pib'')) (frows (projr ?N)) =
     [(1, IntC 5200050, IntC 2020, FltC (Fin (123456 / 100))),
      (2, IntC 5200100, IntC 2020, FltC (Fin (125 / 10)))]"
    by (cases ?N) (auto simp: view_result_def view_def)
  from n1 have e: "?N = Inr (projr ?N)" by simp
  have h: "?N = Inr (projr ?N) \<and> ''pib'' \<noteq> ''code_muni'' \<and> ''pib'' \<noteq> ''ano'' \<and>
           (False \<longrightarrow> \<not> match_dim (CHR ''C'') ''pib'' \<and> \<not> match_dim (CHR ''N'') ''pib'')"
    using e by simp
  note th = value_column_coercion
         [where num = decimal_literal and t = header_table and vn = "''pib''" and keep = False
            and T = "projr ?N"]
  from th[THEN conjunct2, THEN conjunct2, THEN mp, OF h]
  have n3: "list_all (\<lambda>(l, r). l < length (rows header_table) \<and>
                       r ''pib'' = flt_cell (coerce_rule decimal_literal
                                      ((rows header_table ! l) ''V'')) \<and>
                       r ''code_muni'' =
                         int64_cell (flt_cell (decimal_literal ((rows header_table ! l) col_code))) \<and>
                       r ''ano'' =
                         int64_cell (flt_cell (decimal_literal ((rows header_table ! l) ''Ano''))))
              (frows (projr ?N))"
    unfolding list_all_iff cc ct option.case .
  from n1 cc ct n2 n3 show ?thesis by (intro conjI)
qed

section \<open>Claims about the panel\<close>

text \<open>
  C9. \<open>build_panel\<close> collapses the normalised area table to one row per municipality
  (lines 195-199): the aggregate has the columns \<open>code_muni\<close> and \<open>area\<close>, no two of its
  rows have the same code, no row has a missing code, its codes are the non-missing codes
  of the area table, and the area of a row is the largest area that the area table has
  for that code. In the panel the area of a row is the area of the aggregate row with its
  code, and is missing when there is none. The area rows (10, 5.0), (10, 8.0), (11, 3.0)
  aggregate to 10: 8.0 and 11: 3.0.
\<close>

theorem area_is_max_per_municipality:
  "(normalize_sidra_table num area_raw ''area'' False = Inr A \<longrightarrow>
      fcolumns (area_agg A) = [''code_muni'', ''area''] \<and>
      distinct (map (\<lambda>g. g ''code_muni'') (rows_of (area_agg A))) \<and>
      (\<forall>i. (\<exists>g \<in> set (rows_of (area_agg A)). g ''code_muni'' = IntC i) \<longleftrightarrow>
            (\<exists>r \<in> set (rows_of A). r ''code_muni'' = IntC i)) \<and>
      (\<forall>g \<in> set (rows_of (area_agg A)).
         \<exists>i m. g ''code_muni'' = IntC i \<and> g ''area'' = FltC m \<and>
           (\<exists>r \<in> set (rows_of A). r ''code_muni'' = IntC i \<and> r ''area'' = FltC m) \<and>
           (\<forall>r \<in> set (rows_of A). \<forall>v.
              r ''code_muni'' = IntC i \<and> r ''area'' = FltC v \<longrightarrow> v \<le> m))) \<and>
   (build_panel num mun_uf pib_raw pop_raw area_raw = Inr P \<longrightarrow>
      (\<forall>x \<in> set (rows_of P).
         (x ''area'' = NA \<and>
          (\<forall>g \<in> set (rows_of (area_agg (projr (normalize_sidra_table num area_raw ''area'' False)))).
             x ''code_muni'' \<noteq> g ''code_muni'')) \<or>
         (\<exists>g \<in> set (rows_of (area_agg (projr (normalize_sidra_table num area_raw ''area'' False)))).
             x ''code_muni'' = g ''code_muni'' \<and> x ''area'' = g ''area'')))"
proof (intro conjI impI)
  assume n: "normalize_sidra_table num area_raw ''area'' False = Inr A"
  show "fcolumns (area_agg A) = [''code_muni'', ''area'']" by (rule fcolumns_area_agg)
  show "distinct (map (\<lambda>g. g ''code_muni'') (rows_of (area_agg A)))"
    by (rule area_agg_distinct)
  show "\<forall>i. (\<exists>g \<in> set (rows_of (area_agg A)). g ''code_muni'' = IntC i) \<longleftrightarrow>
            (\<exists>r \<in> set (rows_of A). r ''code_muni'' = IntC i)"
    by (intro allI) (rule area_agg_code_iff)
  have t: "tidy ''area'' A" by (rule normalize_tidy[OF n]) simp
  show "\<forall>g \<in> set (rows_of (area_agg A)).
         \<exists>i m. g ''code_muni'' = IntC i \<and> g ''area'' = FltC m \<and>
           (\<exists>r \<in> set (rows_of A). r ''code_muni'' = IntC i \<and> r ''area'' = FltC m) \<and>
           (\<forall>r \<in> set (rows_of A). \<forall>v.
              r ''code_muni'' = IntC i \<and> r ''area'' = FltC v \<longrightarrow> v \<le> m)"
    by (intro ballI) (rule area_agg_row[OF t])
next
  assume b: "build_panel num mun_uf pib_raw pop_raw area_raw = Inr P"
  let ?G = "rows_of (area_agg (projr (normalize_sidra_table num area_raw ''area'' False)))"
  show "\<forall>x \<in> set (rows_of P).
         (x ''area'' = NA \<and> (\<forall>g \<in> set ?G. x ''code_muni'' \<noteq> g ''code_muni'')) \<or>
         (\<exists>g \<in> set ?G. x ''code_muni'' = g ''code_muni'' \<and> x ''area'' = g ''area'')"
  proof (rule build_panel_rows[OF b])
    fix pib pop area
    assume n: "normalize_sidra_table num area_raw ''area'' False = Inr area"
      and m: "\<And>x. x \<in> set (rows_of P) \<longleftrightarrow>
       (\<exists>l \<in> set (keyed pib). \<exists>r \<in> set (keyed pop). \<exists>ro2 ro3.
          (same_key l r \<and>
           found ''code_muni'' (map (\<lambda>(i, n). mun_row i n) mun_uf) (l ''code_muni'') ro2 \<and>
           found ''code_muni'' (rows_of (area_agg area)) (l ''code_muni'') ro3) \<and>
          x = derived_row (join3 (join2 (join1 l r) ro2) ro3))"
    have G: "?G = rows_of (area_agg area)" by (simp only: n sum.sel)
    show "\<forall>x \<in> set (rows_of P).
         (x ''area'' = NA \<and> (\<forall>g \<in> set ?G. x ''code_muni'' \<noteq> g ''code_muni'')) \<or>
         (\<exists>g \<in> set ?G. x ''code_muni'' = g ''code_muni'' \<and> x ''area'' = g ''area'')"
    proof
      fix x assume "x \<in> set (rows_of P)"
      from m[THEN iffD1, OF this] obtain l r ro2 ro3 where
        f: "found ''code_muni'' (rows_of (area_agg area)) (l ''code_muni'') ro3"
        and x: "x = derived_row (join3 (join2 (join1 l r) ro2) ro3)"
        by (rule bex4E)
      note c = panel_row_cells(1)[OF x] panel_row_cells(8)[OF x]
      from found_cases[OF f]
      show "(x ''area'' = NA \<and> (\<forall>g \<in> set ?G. x ''code_muni'' \<noteq> g ''code_muni'')) \<or>
         (\<exists>g \<in> set ?G. x ''code_muni'' = g ''code_muni'' \<and> x ''area'' = g ''area'')"
      proof (elim disjE conjE bexE)
        assume r: "ro3 = None"
          and a: "\<forall>g \<in> set (rows_of (area_agg area)). l ''code_muni'' \<noteq> g ''code_muni''"
        have "x ''area'' = NA" by (simp only: c(2) r option.case)
        moreover have "\<forall>g \<in> set ?G. x ''code_muni'' \<noteq> g ''code_muni''"
          unfolding G c(1) by (rule a)
        ultimately show ?thesis by (intro disjI1 conjI)
      next
        fix g assume g: "g \<in> set (rows_of (area_agg area))"
          and k: "l ''code_muni'' = g ''code_muni''" and r: "ro3 = Some g"
        have "x ''area'' = g ''area''" by (simp only: c(2) r option.case)
        moreover have "x ''code_muni'' = g ''code_muni''" by (simp only: c(1) k)
        moreover from g have "g \<in> set ?G" unfolding G .
        ultimately show ?thesis by (intro disjI2 bexI[of _ g] conjI)
      qed
    qed
  qed
qed

theorem area_is_max_per_municipality_witness:
  "\<not> isl (normalize_sidra_table decimal_literal area_rows_table ''area'' False) \<and>
   \<not> isl (build_panel decimal_literal [(10, ''A''), (11, ''B'')]
            three_codes_table three_codes_table area_rows_table) \<and>
   view (area_agg (projr (normalize_sidra_table decimal_literal area_rows_table ''area'' False))) =
     ([''code_muni'', ''area''], [(0, [IntC 10, FltC (Fin 8)]), (1, [IntC 11, FltC (Fin 3)])]) \<and>
   distinct (map (\<lambda>g. g ''code_muni'')
     (rows_of (area_agg (projr (normalize_sidra_table decimal_literal area_rows_table
                                  ''area'' False))))) \<and>
   map (\<lambda>x. (x ''code_muni'', x ''area''))
     (rows_of (projr (build_panel decimal_literal [(10, ''A''), (11, ''B'')]
                        three_codes_table three_codes_table area_rows_table))) =
     [(IntC 10, FltC (Fin 8)), (IntC 11, FltC (Fin 3)), (IntC 12, NA)] \<and>
   list_all (\<lambda>x.
       (x ''area'' = NA \<and>
        list_all (\<lambda>g. x ''code_muni'' \<noteq> g ''code_muni'')
          (rows_of (area_agg (projr (normalize_sidra_table decimal_literal area_rows_table
                                       ''area'' False))))) \<or>
       list_ex (\<lambda>g. x ''code_muni'' = g ''code_muni'' \<and> x ''area'' = g ''area'')
          (rows_of (area_agg (projr (normalize_sidra_table decimal_literal area_rows_table
                                       ''area'' False)))))
     (rows_of (projr (build_panel decimal_literal [(10, ''A''), (11, ''B'')]
                        three_codes_table three_codes_table area_rows_table)))"
proof -
  let ?N = "normalize_sidra_table decimal_literal area_rows_table ''area'' False"
  let ?B = "build_panel decimal_literal [(10, ''A''), (11, ''B'')]
              three_codes_table three_codes_table area_rows_table"
  have n1: "\<not> isl ?N" by code_simp
  have b1: "\<not> isl ?B" by code_simp
  have v: "view (area_agg (projr ?N)) =
     ([''code_muni'', ''area''], [(0, [IntC 10, FltC (Fin 8)]), (1, [IntC 11, FltC (Fin 3)])])"
    by code_simp
  have w: "map (\<lambda>x. (x ''code_muni'', x ''area'')) (rows_of (projr ?B)) =
     [(IntC 10, FltC (Fin 8)), (IntC 11, FltC (Fin 3)), (IntC 12, NA)]"
    by code_simp
  from n1 have e: "?N = Inr (projr ?N)" by simp
  from b1 have f: "?B = Inr (projr ?B)" by simp
  note th = area_is_max_per_municipality
         [where num = decimal_literal and area_raw = area_rows_table and A = "projr ?N"
            and mun_uf = "[(10, ''A''), (11, ''B'')]" and pib_raw = three_codes_table
            and pop_raw = three_codes_table and P = "projr ?B"]
  from th[THEN conjunct1, THEN mp, OF e]
  have d: "distinct (map (\<lambda>g. g ''code_muni'') (rows_of (area_agg (projr ?N))))"
    by (rule conjunct1[OF conjunct2])
  from th[THEN conjunct2, THEN mp, OF f]
  have a: "list_all (\<lambda>x.
       (x ''area'' = NA \<and>
        list_all (\<lambda>g. x ''code_muni'' \<noteq> g ''code_muni'') (rows_of (area_agg (projr ?N)))) \<or>
       list_ex (\<lambda>g. x ''code_muni'' = g ''code_muni'' \<and> x ''area'' = g ''area'')
          (rows_of (area_agg (projr ?N))))
     (rows_of (projr ?B))"
    unfolding list_all_iff list_ex_iff .
  from n1 b1 v d w a show ?thesis by (intro conjI)
qed

text \<open>
  C5. \<open>build_panel\<close> joins the normalised value table and the normalised population table
  by an inner join on the pair (\<open>code_muni\<close>, \<open>ano\<close>), after dropping from each the rows
  with a missing code or a missing year (lines 201-210): a pair of a code and a year is
  the key of a row of the panel if and only if neither is missing and the pair is the key
  of a row of the value table and of a row of the population table; and every row of the
  panel has the value of a value row and the population of a population row with its key.
  With value rows for the codes 1 and 2 and population rows for the codes 2 and 3, all of
  2020, the panel has the code 2 only.
\<close>

theorem panel_keys_are_in_both_series:
  "build_panel num mun_uf pib_raw pop_raw area_raw = Inr P \<longrightarrow>
     (\<forall>c a. (\<exists>x \<in> set (rows_of P). x ''code_muni'' = c \<and> x ''ano'' = a) \<longleftrightarrow>
            (c \<noteq> NA \<and> a \<noteq> NA \<and>
             (\<exists>l \<in> set (rows_of (projr (normalize_sidra_table num pib_raw ''pib'' False))).
                l ''code_muni'' = c \<and> l ''ano'' = a) \<and>
             (\<exists>r \<in> set (rows_of (projr (normalize_sidra_table num pop_raw ''pop'' False))).
                r ''code_muni'' = c \<and> r ''ano'' = a))) \<and>
     (\<forall>x \<in> set (rows_of P).
        \<exists>l \<in> set (rows_of (projr (normalize_sidra_table num pib_raw ''pib'' False))).
        \<exists>r \<in> set (rows_of (projr (normalize_sidra_table num pop_raw ''pop'' False))).
          l ''code_muni'' = x ''code_muni'' \<and> l ''ano'' = x ''ano'' \<and>
          r ''code_muni'' = x ''code_muni'' \<and> r ''ano'' = x ''ano'' \<and>
          x ''pib'' = l ''pib'' \<and> x ''pop'' = r ''pop'')"
proof (rule impI)
  assume b: "build_panel num mun_uf pib_raw pop_raw area_raw = Inr P"
  let ?A = "rows_of (projr (normalize_sidra_table num pib_raw ''pib'' False))"
  let ?B = "rows_of (projr (normalize_sidra_table num pop_raw ''pop'' False))"
  show "(\<forall>c a. (\<exists>x \<in> set (rows_of P). x ''code_muni'' = c \<and> x ''ano'' = a) \<longleftrightarrow>
            (c \<noteq> NA \<and> a \<noteq> NA \<and>
             (\<exists>l \<in> set ?A. l ''code_muni'' = c \<and> l ''ano'' = a) \<and>
             (\<exists>r \<in> set ?B. r ''code_muni'' = c \<and> r ''ano'' = a))) \<and>
     (\<forall>x \<in> set (rows_of P). \<exists>l \<in> set ?A. \<exists>r \<in> set ?B.
          l ''code_muni'' = x ''code_muni'' \<and> l ''ano'' = x ''ano'' \<and>
          r ''code_muni'' = x ''code_muni'' \<and> r ''ano'' = x ''ano'' \<and>
          x ''pib'' = l ''pib'' \<and> x ''pop'' = r ''pop'')"
  proof (rule build_panel_rows[OF b])
    fix pib pop area
    assume n1: "normalize_sidra_table num pib_raw ''pib'' False = Inr pib"
      and n2: "normalize_sidra_table num pop_raw ''pop'' False = Inr pop"
      and m: "\<And>x. x \<in> set (rows_of P) \<longleftrightarrow>
       (\<exists>l \<in> set (keyed pib). \<exists>r \<in> set (keyed pop). \<exists>ro2 ro3.
          (same_key l r \<and>
           found ''code_muni'' (map (\<lambda>(i, n). mun_row i n) mun_uf) (l ''code_muni'') ro2 \<and>
           found ''code_muni'' (rows_of (area_agg area)) (l ''code_muni'') ro3) \<and>
          x = derived_row (join3 (join2 (join1 l r) ro2) ro3))"
    have A: "?A = rows_of pib" by (simp only: n1 sum.sel)
    have B: "?B = rows_of pop" by (simp only: n2 sum.sel)
    have row: "\<exists>l \<in> set (rows_of pib). \<exists>r \<in> set (rows_of pop).
          (l ''code_muni'' \<noteq> NA \<and> l ''ano'' \<noteq> NA) \<and>
          l ''code_muni'' = x ''code_muni'' \<and> l ''ano'' = x ''ano'' \<and>
          r ''code_muni'' = x ''code_muni'' \<and> r ''ano'' = x ''ano'' \<and>
          x ''pib'' = l ''pib'' \<and> x ''pop'' = r ''pop''"
      if "x \<in> set (rows_of P)" for x
    proof -
      from m[THEN iffD1, OF that] obtain l r ro2 ro3 where
        l: "l \<in> set (keyed pib)" and r: "r \<in> set (keyed pop)" and s: "same_key l r"
        and x: "x = derived_row (join3 (join2 (join1 l r) ro2) ro3)"
        by (rule bex4E)
      note c = panel_row_cells(1-4)[OF x]
      from l have l1: "l \<in> set (rows_of pib)" and l2: "l ''code_muni'' \<noteq> NA \<and> l ''ano'' \<noteq> NA"
        by (simp_all only: keyed_iff simp_thms)
      from r have r1: "r \<in> set (rows_of pop)" by (simp only: keyed_iff)
      from s have s1: "r ''code_muni'' = l ''code_muni''" and s2: "r ''ano'' = l ''ano''"
        by (simp_all only: same_key_def)
      have "(l ''code_muni'' \<noteq> NA \<and> l ''ano'' \<noteq> NA) \<and>
          l ''code_muni'' = x ''code_muni'' \<and> l ''ano'' = x ''ano'' \<and>
          r ''code_muni'' = x ''code_muni'' \<and> r ''ano'' = x ''ano'' \<and>
          x ''pib'' = l ''pib'' \<and> x ''pop'' = r ''pop''"
        unfolding c s1 s2 using l2 by (simp only: simp_thms)
      with l1 r1 show ?thesis by (intro bexI[of _ l] bexI[of _ r])
    qed
    have keys: "(\<exists>x \<in> set (rows_of P). x ''code_muni'' = c \<and> x ''ano'' = a) \<longleftrightarrow>
            (c \<noteq> NA \<and> a \<noteq> NA \<and>
             (\<exists>l \<in> set (rows_of pib). l ''code_muni'' = c \<and> l ''ano'' = a) \<and>
             (\<exists>r \<in> set (rows_of pop). r ''code_muni'' = c \<and> r ''ano'' = a))" for c a
    proof (rule iffI)
      assume "\<exists>x \<in> set (rows_of P). x ''code_muni'' = c \<and> x ''ano'' = a"
      then obtain x where x: "x \<in> set (rows_of P)" and xc: "x ''code_muni'' = c"
        and xa: "x ''ano'' = a"
        by (elim bexE conjE)
      from row[OF x] obtain l r where l: "l \<in> set (rows_of pib)" and r: "r \<in> set (rows_of pop)"
        and h: "(l ''code_muni'' \<noteq> NA \<and> l ''ano'' \<noteq> NA) \<and>
          l ''code_muni'' = x ''code_muni'' \<and> l ''ano'' = x ''ano'' \<and>
          r ''code_muni'' = x ''code_muni'' \<and> r ''ano'' = x ''ano'' \<and>
          x ''pib'' = l ''pib'' \<and> x ''pop'' = r ''pop''"
        by (elim bexE)
      note h1 = h[THEN conjunct1, THEN conjunct1] and h2 = h[THEN conjunct1, THEN conjunct2]
      have h3: "l ''code_muni'' = c"
        using h[THEN conjunct2, THEN conjunct1] xc by (rule trans)
      have h4: "l ''ano'' = a"
        using h[THEN conjunct2, THEN conjunct2, THEN conjunct1] xa by (rule trans)
      have h5: "r ''code_muni'' = c"
        using h[THEN conjunct2, THEN conjunct2, THEN conjunct2, THEN conjunct1] xc
        by (rule trans)
      have h6: "r ''ano'' = a"
        using h[THEN conjunct2, THEN conjunct2, THEN conjunct2, THEN conjunct2, THEN conjunct1] xa
        by (rule trans)
      from h1 have "c \<noteq> NA" unfolding h3 .
      moreover from h2 have "a \<noteq> NA" unfolding h4 .
      moreover from l h3 h4 have "\<exists>l \<in> set (rows_of pib). l ''code_muni'' = c \<and> l ''ano'' = a"
        by (intro bexI[of _ l] conjI)
      moreover from r h5 h6 have "\<exists>r \<in> set (rows_of pop). r ''code_muni'' = c \<and> r ''ano'' = a"
        by (intro bexI[of _ r] conjI)
      ultimately show "c \<noteq> NA \<and> a \<noteq> NA \<and>
             (\<exists>l \<in> set (rows_of pib). l ''code_muni'' = c \<and> l ''ano'' = a) \<and>
             (\<exists>r \<in> set (rows_of pop). r ''code_muni'' = c \<and> r ''ano'' = a)"
        by (intro conjI)
    next
      assume "c \<noteq> NA \<and> a \<noteq> NA \<and>
             (\<exists>l \<in> set (rows_of pib). l ''code_muni'' = c \<and> l ''ano'' = a) \<and>
             (\<exists>r \<in> set (rows_of pop). r ''code_muni'' = c \<and> r ''ano'' = a)"
      then obtain l r where c: "c \<noteq> NA" and a: "a \<noteq> NA"
        and l: "l \<in> set (rows_of pib)" and lc: "l ''code_muni'' = c" and la: "l ''ano'' = a"
        and r: "r \<in> set (rows_of pop)" and rc: "r ''code_muni'' = c" and ra: "r ''ano'' = a"
        by (elim bexE conjE)
      from l c a have lk: "l \<in> set (keyed pib)" unfolding keyed_iff lc la by (intro conjI)
      from r c a have rk: "r \<in> set (keyed pop)" unfolding keyed_iff rc ra by (intro conjI)
      have s: "same_key l r" unfolding same_key_def lc la rc ra by (intro conjI refl)
      from found_exists[of "''code_muni''" "map (\<lambda>(i, n). mun_row i n) mun_uf" "l ''code_muni''"]
      obtain ro2 where f2: "found ''code_muni'' (map (\<lambda>(i, n). mun_row i n) mun_uf)
                              (l ''code_muni'') ro2"
        by (rule exE)
      from found_exists[of "''code_muni''" "rows_of (area_agg area)" "l ''code_muni''"]
      obtain ro3 where f3: "found ''code_muni'' (rows_of (area_agg area)) (l ''code_muni'') ro3"
        by (rule exE)
      let ?x = "derived_row (join3 (join2 (join1 l r) ro2) ro3)"
      have "\<exists>l \<in> set (keyed pib). \<exists>r \<in> set (keyed pop). \<exists>ro2 ro3.
          (same_key l r \<and>
           found ''code_muni'' (map (\<lambda>(i, n). mun_row i n) mun_uf) (l ''code_muni'') ro2 \<and>
           found ''code_muni'' (rows_of (area_agg area)) (l ''code_muni'') ro3) \<and>
          ?x = derived_row (join3 (join2 (join1 l r) ro2) ro3)"
        using lk rk s f2 f3
        by (intro bexI[of _ l] bexI[of _ r] exI[of _ ro2] exI[of _ ro3] conjI refl)
      then have x: "?x \<in> set (rows_of P)" by (rule m[THEN iffD2])
      have "?x ''code_muni'' = c" "?x ''ano'' = a"
        using panel_row_cells(1,2)[OF refl, of l r ro2 ro3] lc la by (simp_all only:)
      with x show "\<exists>x \<in> set (rows_of P). x ''code_muni'' = c \<and> x ''ano'' = a"
        by (intro bexI[of _ ?x] conjI)
    qed
    show "(\<forall>c a. (\<exists>x \<in> set (rows_of P). x ''code_muni'' = c \<and> x ''ano'' = a) \<longleftrightarrow>
            (c \<noteq> NA \<and> a \<noteq> NA \<and>
             (\<exists>l \<in> set ?A. l ''code_muni'' = c \<and> l ''ano'' = a) \<and>
             (\<exists>r \<in> set ?B. r ''code_muni'' = c \<and> r ''ano'' = a))) \<and>
     (\<forall>x \<in> set (rows_of P). \<exists>l \<in> set ?A. \<exists>r \<in> set ?B.
          l ''code_muni'' = x ''code_muni'' \<and> l ''ano'' = x ''ano'' \<and>
          r ''code_muni'' = x ''code_muni'' \<and> r ''ano'' = x ''ano'' \<and>
          x ''pib'' = l ''pib'' \<and> x ''pop'' = r ''pop'')"
      unfolding A B
    proof (intro conjI allI ballI)
      fix c a
      show "(\<exists>x \<in> set (rows_of P). x ''code_muni'' = c \<and> x ''ano'' = a) \<longleftrightarrow>
            (c \<noteq> NA \<and> a \<noteq> NA \<and>
             (\<exists>l \<in> set (rows_of pib). l ''code_muni'' = c \<and> l ''ano'' = a) \<and>
             (\<exists>r \<in> set (rows_of pop). r ''code_muni'' = c \<and> r ''ano'' = a))"
        by (rule keys)
    next
      fix x assume x: "x \<in> set (rows_of P)"
      from row[OF x] obtain l r where l: "l \<in> set (rows_of pib)" and r: "r \<in> set (rows_of pop)"
        and h: "(l ''code_muni'' \<noteq> NA \<and> l ''ano'' \<noteq> NA) \<and>
          l ''code_muni'' = x ''code_muni'' \<and> l ''ano'' = x ''ano'' \<and>
          r ''code_muni'' = x ''code_muni'' \<and> r ''ano'' = x ''ano'' \<and>
          x ''pib'' = l ''pib'' \<and> x ''pop'' = r ''pop''"
        by (elim bexE)
      from l r conjunct2[OF h]
      show "\<exists>l \<in> set (rows_of pib). \<exists>r \<in> set (rows_of pop).
          l ''code_muni'' = x ''code_muni'' \<and> l ''ano'' = x ''ano'' \<and>
          r ''code_muni'' = x ''code_muni'' \<and> r ''ano'' = x ''ano'' \<and>
          x ''pib'' = l ''pib'' \<and> x ''pop'' = r ''pop''"
        by (intro bexI[of _ l] bexI[of _ r])
    qed
  qed
qed

theorem panel_keys_are_in_both_series_witness:
  "\<not> isl (build_panel decimal_literal [(1, ''Um''), (2, ''Dois''), (3, ''Tres'')]
            codes_1_2_table codes_2_3_table area_rows_table) \<and>
   map (\<lambda>x. (x ''code_muni'', x ''ano'', x ''pib'', x ''pop''))
     (rows_of (projr (build_panel decimal_literal [(1, ''Um''), (2, ''Dois''), (3, ''Tres'')]
                        codes_1_2_table codes_2_3_table area_rows_table))) =
     [(IntC 2, IntC 2020, FltC (Fin 20), FltC (Fin 200))] \<and>
   list_ex (\<lambda>x. x ''code_muni'' = IntC 2 \<and> x ''ano'' = IntC 2020)
     (rows_of (projr (build_panel decimal_literal [(1, ''Um''), (2, ''Dois''), (3, ''Tres'')]
                        codes_1_2_table codes_2_3_table area_rows_table))) \<and>
   list_all (\<lambda>x.
       list_ex (\<lambda>l.
         list_ex (\<lambda>r. l ''code_muni'' = x ''code_muni'' \<and> l ''ano'' = x ''ano'' \<and>
                       r ''code_muni'' = x ''code_muni'' \<and> r ''ano'' = x ''ano'' \<and>
                       x ''pib'' = l ''pib'' \<and> x ''pop'' = r ''pop'')
           (rows_of (projr (normalize_sidra_table decimal_literal codes_2_3_table ''pop'' False))))
         (rows_of (projr (normalize_sidra_table decimal_literal codes_1_2_table ''pib'' False))))
     (rows_of (projr (build_panel decimal_literal [(1, ''Um''), (2, ''Dois''), (3, ''Tres'')]
                        codes_1_2_table codes_2_3_table area_rows_table)))"
proof -
  let ?B = "build_panel decimal_literal [(1, ''Um''), (2, ''Dois''), (3, ''Tres'')]
              codes_1_2_table codes_2_3_table area_rows_table"
  let ?V = "rows_of (projr (normalize_sidra_table decimal_literal codes_1_2_table ''pib'' False))"
  let ?W = "rows_of (projr (normalize_sidra_table decimal_literal codes_2_3_table ''pop'' False))"
  have b1: "\<not> isl ?B" by code_simp
  have w: "map (\<lambda>x. (x ''code_muni'', x ''ano'', x ''pib'', x ''pop'')) (rows_of (projr ?B)) =
     [(IntC 2, IntC 2020, FltC (Fin 20), FltC (Fin 200))]"
    by code_simp
  have "list_ex (\<lambda>l. l ''code_muni'' = IntC 2 \<and> l ''ano'' = IntC 2020) ?V" by code_simp
  then have a: "\<exists>l \<in> set ?V. l ''code_muni'' = IntC 2 \<and> l ''ano'' = IntC 2020"
    unfolding list_ex_iff .
  have "list_ex (\<lambda>r. r ''code_muni'' = IntC 2 \<and> r ''ano'' = IntC 2020) ?W" by code_simp
  then have p: "\<exists>r \<in> set ?W. r ''code_muni'' = IntC 2 \<and> r ''ano'' = IntC 2020"
    unfolding list_ex_iff .
  have c1: "IntC 2 \<noteq> NA" and c2: "IntC 2020 \<noteq> NA" by simp_all
  from b1 have f: "?B = Inr (projr ?B)" by simp
  note th = panel_keys_are_in_both_series
         [where num = decimal_literal and mun_uf = "[(1, ''Um''), (2, ''Dois''), (3, ''Tres'')]"
            and pib_raw = codes_1_2_table and pop_raw = codes_2_3_table
            and area_raw = area_rows_table and P = "projr ?B", THEN mp, OF f]
  from th[THEN conjunct1, THEN spec[where x = "IntC 2"], THEN spec[where x = "IntC 2020"],
          THEN iffD2, OF conjI[OF c1 conjI[OF c2 conjI[OF a p]]]]
  have k: "list_ex (\<lambda>x. x ''code_muni'' = IntC 2 \<and> x ''ano'' = IntC 2020) (rows_of (projr ?B))"
    unfolding list_ex_iff .
  from th[THEN conjunct2]
  have j: "list_all (\<lambda>x.
       list_ex (\<lambda>l.
         list_ex (\<lambda>r. l ''code_muni'' = x ''code_muni'' \<and> l ''ano'' = x ''ano'' \<and>
                       r ''code_muni'' = x ''code_muni'' \<and> r ''ano'' = x ''ano'' \<and>
                       x ''pib'' = l ''pib'' \<and> x ''pop'' = r ''pop'') ?W) ?V)
     (rows_of (projr ?B))"
    unfolding list_all_iff list_ex_iff .
  from b1 w k j show ?thesis by (intro conjI)
qed

text \<open>
  C3. In every row of the panel that \<open>build_panel\<close> returns the value and the population
  are floats, \<open>pib_pc\<close> is the value divided by the population, without any guard (a zero
  population gives an infinity, or NaN when the value is zero too), and \<open>pib_km2\<close> is the
  value divided by the area when the area is not missing and greater than zero, and is
  missing otherwise (lines 219-220). With the value 100, the population 20 and the area 10,
  \<open>pib_pc\<close> is 5.0 and \<open>pib_km2\<close> is 10.0; with the area 0, \<open>pib_km2\<close> is missing and \<open>pib_pc\<close>
  is still 5.0.
\<close>

theorem derived_metrics:
  "(build_panel num mun_uf pib_raw pop_raw area_raw = Inr P \<longrightarrow>
      (\<forall>x \<in> set (rows_of P).
         \<exists>v p. x ''pib'' = FltC v \<and> x ''pop'' = FltC p \<and>
           x ''pib_pc'' = flt_cell (fdiv v p) \<and>
           x ''pib_km2'' =
             (case x ''area'' of
                FltC a \<Rightarrow> if Fin 0 < a then flt_cell (fdiv v a) else NA
              | _ \<Rightarrow> NA))) \<and>
   flt_cell (fdiv (Fin 100) (Fin 20)) = FltC (Fin 5) \<and>
   flt_cell (fdiv (Fin 100) (Fin 10)) = FltC (Fin 10) \<and>
   flt_cell (fdiv (Fin 100) (Fin 0)) = FltC PInf \<and>
   flt_cell (fdiv (Fin 0) (Fin 0)) = NA"
proof (intro conjI impI)
  assume b: "build_panel num mun_uf pib_raw pop_raw area_raw = Inr P"
  show "\<forall>x \<in> set (rows_of P).
         \<exists>v p. x ''pib'' = FltC v \<and> x ''pop'' = FltC p \<and>
           x ''pib_pc'' = flt_cell (fdiv v p) \<and>
           x ''pib_km2'' =
             (case x ''area'' of
                FltC a \<Rightarrow> if Fin 0 < a then flt_cell (fdiv v a) else NA
              | _ \<Rightarrow> NA)"
  proof (rule build_panel_rows[OF b])
    fix pib pop area
    assume t1: "tidy ''pib'' pib" and t2: "tidy ''pop'' pop"
      and m: "\<And>x. x \<in> set (rows_of P) \<longleftrightarrow>
       (\<exists>l \<in> set (keyed pib). \<exists>r \<in> set (keyed pop). \<exists>ro2 ro3.
          (same_key l r \<and>
           found ''code_muni'' (map (\<lambda>(i, n). mun_row i n) mun_uf) (l ''code_muni'') ro2 \<and>
           found ''code_muni'' (rows_of (area_agg area)) (l ''code_muni'') ro3) \<and>
          x = derived_row (join3 (join2 (join1 l r) ro2) ro3))"
    show "\<forall>x \<in> set (rows_of P).
         \<exists>v p. x ''pib'' = FltC v \<and> x ''pop'' = FltC p \<and>
           x ''pib_pc'' = flt_cell (fdiv v p) \<and>
           x ''pib_km2'' =
             (case x ''area'' of
                FltC a \<Rightarrow> if Fin 0 < a then flt_cell (fdiv v a) else NA
              | _ \<Rightarrow> NA)"
    proof
      fix x assume "x \<in> set (rows_of P)"
      from m[THEN iffD1, OF this] obtain l r ro2 ro3 where
        l: "l \<in> set (keyed pib)" and r: "r \<in> set (keyed pop)"
        and x: "x = derived_row (join3 (join2 (join1 l r) ro2) ro3)"
        by (rule bex4E)
      from keyed_typed[OF t1 l] obtain v where v: "l ''pib'' = FltC v" by (elim exE conjE)
      from keyed_typed[OF t2 r] obtain p where p: "r ''pop'' = FltC p" by (elim exE conjE)
      have c1: "x ''pib'' = FltC v" using panel_row_cells(3)[OF x] v by (rule trans)
      have c2: "x ''pop'' = FltC p" using panel_row_cells(4)[OF x] p by (rule trans)
      have c3: "x ''pib_pc'' = flt_cell (fdiv v p)"
        unfolding panel_row_cells(9)[OF x] v p by (simp add: cell_div_def)
      have c4: "x ''pib_km2'' =
             (case x ''area'' of
                FltC a \<Rightarrow> if Fin 0 < a then flt_cell (fdiv v a) else NA
              | _ \<Rightarrow> NA)"
        unfolding panel_row_cells(10)[OF x] v
        by (cases "x ''area''") (simp_all add: cell_div_def positive_def)
      from c1 c2 c3 c4
      show "\<exists>v p. x ''pib'' = FltC v \<and> x ''pop'' = FltC p \<and>
           x ''pib_pc'' = flt_cell (fdiv v p) \<and>
           x ''pib_km2'' =
             (case x ''area'' of
                FltC a \<Rightarrow> if Fin 0 < a then flt_cell (fdiv v a) else NA
              | _ \<Rightarrow> NA)"
        by (intro exI[of _ v] exI[of _ p] conjI)
    qed
  qed
next
  show "flt_cell (fdiv (Fin 100) (Fin 20)) = FltC (Fin 5)" by (simp add: flt_cell_def)
  show "flt_cell (fdiv (Fin 100) (Fin 10)) = FltC (Fin 10)" by (simp add: flt_cell_def)
  show "flt_cell (fdiv (Fin 100) (Fin 0)) = FltC PInf" by (simp add: flt_cell_def)
  show "flt_cell (fdiv (Fin 0) (Fin 0)) = NA" by (simp add: flt_cell_def)
qed

theorem derived_metrics_witness:
  "\<not> isl (build_panel decimal_literal [(1, ''A''), (2, ''B''), (3, ''C'')]
            value_100_table pop_20_table area_10_table) \<and>
   map (\<lambda>x. (x ''code_muni'', x ''pib'', x ''pop'', x ''area'', x ''pib_pc'', x ''pib_km2''))
     (rows_of (projr (build_panel decimal_literal [(1, ''A''), (2, ''B''), (3, ''C'')]
                        value_100_table pop_20_table area_10_table))) =
     [(IntC 1, FltC (Fin 100), FltC (Fin 20), FltC (Fin 10), FltC (Fin 5), FltC (Fin 10)),
      (IntC 2, FltC (Fin 100), FltC (Fin 20), FltC (Fin 0), FltC (Fin 5), NA),
      (IntC 3, FltC (Fin 100), FltC (Fin 0), NA, FltC PInf, NA)] \<and>
   list_all (\<lambda>x.
       \<exists>v p. x ''pib'' = FltC v \<and> x ''pop'' = FltC p \<and>
         x ''pib_pc'' = flt_cell (fdiv v p) \<and>
         x ''pib_km2'' =
           (case x ''area'' of
              FltC a \<Rightarrow> if Fin 0 < a then flt_cell (fdiv v a) else NA
            | _ \<Rightarrow> NA))
     (rows_of (projr (build_panel decimal_literal [(1, ''A''), (2, ''B''), (3, ''C'')]
                        value_100_table pop_20_table area_10_table)))"
proof -
  let ?B = "build_panel decimal_literal [(1, ''A''), (2, ''B''), (3, ''C'')]
              value_100_table pop_20_table area_10_table"
  have b1: "\<not> isl ?B" by code_simp
  have w: "map (\<lambda>x. (x ''code_muni'', x ''pib'', x ''pop'', x ''area'', x ''pib_pc'', x ''pib_km2''))
     (rows_of (projr ?B)) =
     [(IntC 1, FltC (Fin 100), FltC (Fin 20), FltC (Fin 10), FltC (Fin 5), FltC (Fin 10)),
      (IntC 2, FltC (Fin 100), FltC (Fin 20), FltC (Fin 0), FltC (Fin 5), NA),
      (IntC 3, FltC (Fin 100), FltC (Fin 0), NA, FltC PInf, NA)]"
    by code_simp
  from b1 have f: "?B = Inr (projr ?B)" by simp
  note th = derived_metrics
         [where num = decimal_literal and mun_uf = "[(1, ''A''), (2, ''B''), (3, ''C'')]"
            and pib_raw = value_100_table and pop_raw = pop_20_table
            and area_raw = area_10_table and P = "projr ?B", THEN conjunct1, THEN mp, OF f]
  from th have j: "list_all (\<lambda>x.
       \<exists>v p. x ''pib'' = FltC v \<and> x ''pop'' = FltC p \<and>
         x ''pib_pc'' = flt_cell (fdiv v p) \<and>
         x ''pib_km2'' =
           (case x ''area'' of
              FltC a \<Rightarrow> if Fin 0 < a then flt_cell (fdiv v a) else NA
            | _ \<Rightarrow> NA))
     (rows_of (projr ?B))"
    unfolding list_all_iff .
  from b1 w j show ?thesis by (intro conjI)
qed

end
